theory Spec2Isabelle
  imports Complex_Main
begin

section \<open>Values, exceptions and the response model\<close>

text \<open>
  The gateway is a Python program: claim values of a decoded token are JSON values,
  and an operation on a value of the wrong type raises. JSON values are modelled as
  \<open>jval\<close> (numbers with a fractional part are left out), a Python \<open>dict\<close> with string
  keys as an association list read with \<open>map_of\<close>, and a raised exception as the
  \<open>Inl\<close> side of a sum.
\<close>

datatype jval =
    JNull
  | JBool bool
  | JInt int
  | JStr string
  | JList "jval list"
  | JObj "(string \<times> jval) list"

type_synonym pydict = "(string \<times> jval) list"

datatype exn =
    ExpiredSignatureError
  | InvalidSignatureError
  | DecodeError
  | TypeError
  | AttributeError
  | OtherException

text \<open>models.py: \<open>Decision\<close>, \<open>DenyReason\<close>, \<open>ValidateRequest\<close>, \<open>ValidateResponse\<close>.\<close>

datatype Decision = ALLOW | DENY | MONITOR

datatype DenyReason =
    EXPIRED_TOKEN
  | NOT_YET_VALID
  | REPLAY_DETECTED
  | RATE_LIMIT_EXCEEDED
  | INVALID_SIGNATURE
  | LOW_SCORE
  | MALFORMED_TOKEN
  | INTERNAL_ERROR

record ValidateResponse =
  decision :: Decision
  reason :: "DenyReason option"
  request_id :: string
  timestamp :: real
  score :: "int option"

text \<open>config.py: the fields of \<open>Settings\<close> that the pipeline reads.\<close>

record Settings =
  jwt_algorithm :: string
  jwt_clock_drift_seconds :: int
  rate_limit_requests_per_minute :: int
  rate_limit_burst_size :: int
  score_provider_type :: string
  score_cache_ttl_seconds :: int
  telemetry_emit_enabled :: bool
  replay_cache_max_size :: int

subsection \<open>Python primitives\<close>

text \<open>\<open>d.get(k)\<close>: the value, or \<open>None\<close> when the key is absent.\<close>

definition dict_get :: "pydict \<Rightarrow> string \<Rightarrow> jval" where
  "dict_get d k = (case map_of d k of None \<Rightarrow> JNull | Some v \<Rightarrow> v)"

text \<open>\<open>k in d\<close>.\<close>

definition dict_has :: "pydict \<Rightarrow> string \<Rightarrow> bool" where
  "dict_has d k = (map_of d k \<noteq> None)"

text \<open>Truthiness, as \<open>not x\<close> and \<open>if x\<close> test it.\<close>

fun truthy :: "jval \<Rightarrow> bool" where
  "truthy JNull = False"
| "truthy (JBool b) = b"
| "truthy (JInt n) = (n \<noteq> 0)"
| "truthy (JStr s) = (s \<noteq> [])"
| "truthy (JList xs) = (xs \<noteq> [])"
| "truthy (JObj kv) = (kv \<noteq> [])"

text \<open>
  The integer a value stands for in \<open>x + n\<close> and \<open>x - n\<close>: \<open>bool\<close> is a subclass of
  \<open>int\<close>; any other type raises \<open>TypeError\<close>.
\<close>

fun py_int :: "jval \<Rightarrow> exn + int" where
  "py_int (JInt n) = Inr n"
| "py_int (JBool b) = Inr (if b then 1 else 0)"
| "py_int v = Inl TypeError"

text \<open>
  The key a value is stored under in a \<open>set\<close> or looked up under in a \<open>dict\<close>: lists and
  dicts are unhashable (\<open>TypeError\<close>), and \<open>True == 1\<close>, \<open>False == 0\<close> hash alike.
\<close>

fun py_key :: "jval \<Rightarrow> exn + jval" where
  "py_key (JList xs) = Inl TypeError"
| "py_key (JObj kv) = Inl TypeError"
| "py_key (JBool b) = Inr (JInt (if b then 1 else 0))"
| "py_key v = Inr v"

section \<open>core/decision\_engine.py and core/score\_provider.py\<close>

text \<open>
  persistence/repositories.py and the HTTP client are external collaborators: each call
  either raises or returns. \<open>api_fetch\<close> is the body of the \<open>try\<close> in \<open>_get_from_api\<close>
  (request, \<open>raise_for_status\<close>, \<open>data.get("score", 0)\<close>), given the settings it reads.
  Scores are integers, as the annotations \<open>Optional[int]\<close> and \<open>-> int\<close> say; the
  principal is whatever the \<open>sub\<close> claim holds. \<open>get_from_database\<close>, \<open>get_from_redis\<close>
  and \<open>get_from_api\<close> are \<open>_get_from_database\<close>, \<open>_get_from_redis\<close> and \<open>_get_from_api\<close>.
\<close>

record ScoreRepository =
  repo_get_score :: "jval \<Rightarrow> exn + int option"
  repo_get_cached_score :: "jval \<Rightarrow> exn + int option"
  repo_cache_score :: "jval \<Rightarrow> int \<Rightarrow> int \<Rightarrow> exn + unit"
  api_fetch :: "Settings \<Rightarrow> jval \<Rightarrow> exn + int"

record TrustedScoreProvider =
  sp_settings :: "Settings option"
  score_repo :: ScoreRepository
  provider_type :: string

definition TrustedScoreProvider_init ::
  "ScoreRepository \<Rightarrow> Settings option \<Rightarrow> TrustedScoreProvider" where
  "TrustedScoreProvider_init repo s =
     \<lparr>sp_settings = s, score_repo = repo,
      provider_type = (case s of Some st \<Rightarrow> score_provider_type st | None \<Rightarrow> ''database'')\<rparr>"

definition get_from_database :: "TrustedScoreProvider \<Rightarrow> jval \<Rightarrow> exn + int" where
  "get_from_database p user_id =
     (case repo_get_score (score_repo p) user_id of
        Inl e \<Rightarrow> Inl e
      | Inr None \<Rightarrow> Inr 0
      | Inr (Some s) \<Rightarrow> Inr s)"

definition get_from_redis :: "TrustedScoreProvider \<Rightarrow> jval \<Rightarrow> exn + int" where
  "get_from_redis p user_id =
     (case repo_get_cached_score (score_repo p) user_id of
        Inl e \<Rightarrow> Inl e
      | Inr (Some cached_score) \<Rightarrow> Inr cached_score
      | Inr None \<Rightarrow>
          (case repo_get_score (score_repo p) user_id of
             Inl e \<Rightarrow> Inl e
           | Inr (Some s) \<Rightarrow>
               (let ttl = (case sp_settings p of
                             Some st \<Rightarrow> score_cache_ttl_seconds st | None \<Rightarrow> 300)
                in case repo_cache_score (score_repo p) user_id s ttl of
                     Inl e \<Rightarrow> Inl e
                   | Inr u \<Rightarrow> Inr s)
           | Inr None \<Rightarrow> Inr 0))"

definition get_from_api :: "TrustedScoreProvider \<Rightarrow> jval \<Rightarrow> exn + int" where
  "get_from_api p user_id =
     (case sp_settings p of
        None \<Rightarrow> Inr 0
      | Some st \<Rightarrow>
          (case api_fetch (score_repo p) st user_id of
             Inl e \<Rightarrow> Inr 0
           | Inr s \<Rightarrow> Inr s))"

definition get_score :: "TrustedScoreProvider \<Rightarrow> jval \<Rightarrow> int" where
  "get_score p user_id =
     (case (if provider_type p = ''database'' then get_from_database p user_id
            else if provider_type p = ''redis'' then get_from_redis p user_id
            else if provider_type p = ''external_api'' then get_from_api p user_id
            else Inr 0) of
        Inl e \<Rightarrow> 0
      | Inr s \<Rightarrow> s)"

text \<open>
  \<open>hash_user_id\<close>: \<open>user_id.encode()\<close> exists on strings only; SHA-256 itself is the
  parameter \<open>sha\<close>.
\<close>

fun hash_user_id :: "(string \<Rightarrow> string) \<Rightarrow> jval \<Rightarrow> exn + string" where
  "hash_user_id sha (JStr s) = Inr (sha s)"
| "hash_user_id sha v = Inl AttributeError"

definition ALLOW_THRESHOLD :: int where
  "ALLOW_THRESHOLD = 70"

definition MONITOR_THRESHOLD :: int where
  "MONITOR_THRESHOLD = 50"

definition make_decision :: "TrustedScoreProvider \<Rightarrow> jval \<Rightarrow> Decision \<times> int" where
  "make_decision p user_id =
     (let s = get_score p user_id
      in if s \<ge> ALLOW_THRESHOLD then (ALLOW, s)
         else if s \<ge> MONITOR_THRESHOLD then (MONITOR, s)
         else (DENY, s))"

section \<open>core/rate\_limiter.py\<close>

text \<open>
  Token bucket, keyed by the literal \<open>"global"\<close>. Python floats are idealised as reals
  (rounding is not modelled); \<open>now\<close> is the reading of \<open>time.time()\<close> taken by the call.
  Nothing in the body of the \<open>try\<close> can raise on this state, so the handler that
  returns \<open>True\<close> has no branch here.
\<close>

record RateLimiter =
  max_tokens :: real
  refill_rate :: real
  state :: "string \<rightharpoonup> real \<times> real"

definition RateLimiter_init :: "int \<Rightarrow> RateLimiter" where
  "RateLimiter_init requests_per_minute =
     \<lparr>max_tokens = 120, refill_rate = real_of_int requests_per_minute / 60,
      state = Map.empty\<rparr>"

definition is_allowed :: "real \<Rightarrow> RateLimiter \<Rightarrow> bool \<times> RateLimiter" where
  "is_allowed now rl =
     (case state rl ''global'' of
        None \<Rightarrow>
          (True, rl\<lparr>state := (state rl)(''global'' \<mapsto> (max_tokens rl - 1, now))\<rparr>)
      | Some (tokens0, last_update) \<Rightarrow>
          (let elapsed = now - last_update;
               tokens = min (max_tokens rl) (tokens0 + elapsed * refill_rate rl)
           in if tokens < 1
              then (False, rl\<lparr>state := (state rl)(''global'' \<mapsto> (tokens, now))\<rparr>)
              else (True, rl\<lparr>state := (state rl)(''global'' \<mapsto> (tokens - 1, now))\<rparr>)))"

text \<open>A sequence of calls, each with its clock reading.\<close>

fun admit_all :: "real list \<Rightarrow> RateLimiter \<Rightarrow> RateLimiter" where
  "admit_all [] rl = rl"
| "admit_all (now # ts) rl = admit_all ts (snd (is_allowed now rl))"

section \<open>core/jwt\_validator.py\<close>

text \<open>
  \<open>jwt.decode\<close> (signature verification under the configured key and algorithm, with
  \<open>verify_exp\<close> and \<open>verify_nbf\<close> off) is the parameter \<open>dec\<close>: it raises or returns the
  payload. \<open>now\<close> is \<open>int(time.time())\<close>. The result is a dict: the payload, or
  \<open>{"error": kind}\<close>; \<open>Inl\<close> is an exception that leaves the method.
  \<open>jwt_validate_token\<close> is \<open>JWTValidator.validate_token\<close> (the name \<open>validate_token\<close> is
  kept for the endpoint of main.py); \<open>check_exp\<close>, \<open>check_nbf\<close> and \<open>check_required\<close> are
  its lines 61 to 69, 71 to 75 and 77 to 81, each falling through to the next.
\<close>

record JWTValidator =
  public_key :: string
  algorithm :: string
  clock_drift :: int

definition JWTValidator_init :: "Settings \<Rightarrow> string \<Rightarrow> JWTValidator" where
  "JWTValidator_init s key =
     \<lparr>public_key = key, algorithm = jwt_algorithm s, clock_drift = jwt_clock_drift_seconds s\<rparr>"

definition error_dict :: "string \<Rightarrow> pydict" where
  "error_dict kind = [(''error'', JStr kind)]"

definition check_required :: "pydict \<Rightarrow> exn + pydict" where
  "check_required payload =
     (if \<not> dict_has payload ''jti'' \<or> \<not> dict_has payload ''sub''
      then Inr (error_dict ''malformed'')
      else Inr payload)"

definition check_nbf :: "JWTValidator \<Rightarrow> int \<Rightarrow> pydict \<Rightarrow> exn + pydict" where
  "check_nbf v now payload =
     (case dict_get payload ''nbf'' of
        JNull \<Rightarrow> check_required payload
      | nbf_claim \<Rightarrow>
          (case py_int nbf_claim of
             Inl e \<Rightarrow> Inl e
           | Inr n \<Rightarrow>
               if now < n - clock_drift v then Inr (error_dict ''not_yet_valid'')
               else check_required payload))"

definition check_exp :: "JWTValidator \<Rightarrow> int \<Rightarrow> pydict \<Rightarrow> exn + pydict" where
  "check_exp v now payload =
     (case dict_get payload ''exp'' of
        JNull \<Rightarrow> Inr (error_dict ''malformed'')
      | exp_claim \<Rightarrow>
          (case py_int exp_claim of
             Inl e \<Rightarrow> Inl e
           | Inr n \<Rightarrow>
               if now > n + clock_drift v then Inr (error_dict ''expired'')
               else check_nbf v now payload))"

definition jwt_validate_token ::
  "(string \<Rightarrow> string \<Rightarrow> string \<Rightarrow> exn + pydict) \<Rightarrow> JWTValidator \<Rightarrow> string \<Rightarrow> int
     \<Rightarrow> exn + pydict" where
  "jwt_validate_token dec v token now =
     (if token = [] then Inr (error_dict ''malformed'')
      else case dec token (public_key v) (algorithm v) of
             Inl ExpiredSignatureError \<Rightarrow> Inr (error_dict ''expired'')
           | Inl InvalidSignatureError \<Rightarrow> Inr (error_dict ''invalid_signature'')
           | Inl DecodeError \<Rightarrow> Inr (error_dict ''malformed'')
           | Inl e \<Rightarrow> Inr (error_dict ''malformed'')
           | Inr payload \<Rightarrow> check_exp v now payload)"

section \<open>core/replay\_cache.py\<close>

text \<open>
  \<open>seen\<close> holds the keys of the recorded identifiers, \<open>jti_timestamps\<close> the expirations
  given to \<open>record\<close>. \<open>now\<close> is the reading of \<open>time.time()\<close> in \<open>_cleanup_expired\<close>.
  \<open>record_jti\<close> is \<open>ReplayCache.record\<close>, whose second argument defaults to \<open>None\<close> and
  is stored only when truthy; \<open>cleanup_expired\<close> is \<open>_cleanup_expired\<close>, \<open>size_cache\<close> is
  \<open>size\<close>.
\<close>

record ReplayCache =
  seen :: "jval set"
  jti_timestamps :: "jval \<rightharpoonup> int"

definition ReplayCache_init :: ReplayCache where
  "ReplayCache_init = \<lparr>seen = {}, jti_timestamps = Map.empty\<rparr>"

definition is_expired :: "real \<Rightarrow> ReplayCache \<Rightarrow> jval \<Rightarrow> bool" where
  "is_expired now rc j =
     (case jti_timestamps rc j of None \<Rightarrow> False | Some exp_time \<Rightarrow> real_of_int exp_time < now)"

definition cleanup_expired :: "real \<Rightarrow> ReplayCache \<Rightarrow> ReplayCache" where
  "cleanup_expired now rc =
     rc\<lparr>seen := Set.filter (\<lambda>j. \<not> is_expired now rc j) (seen rc),
        jti_timestamps := (\<lambda>j. if is_expired now rc j then None else jti_timestamps rc j)\<rparr>"

definition is_replayed :: "jval \<Rightarrow> real \<Rightarrow> ReplayCache \<Rightarrow> (exn + bool) \<times> ReplayCache" where
  "is_replayed jti now rc =
     (if \<not> truthy jti then (Inr True, rc)
      else let rc1 = (if card (seen rc) mod 100 = 0 then cleanup_expired now rc else rc)
           in case py_key jti of
                Inl e \<Rightarrow> (Inl e, rc1)
              | Inr k \<Rightarrow> (Inr (k \<in> seen rc1), rc1))"

definition record_jti :: "jval \<Rightarrow> int option \<Rightarrow> ReplayCache \<Rightarrow> exn + ReplayCache" where
  "record_jti jti exp_arg rc =
     (if truthy jti
      then case py_key jti of
             Inl e \<Rightarrow> Inl e
           | Inr k \<Rightarrow>
               (let rc1 = rc\<lparr>seen := insert k (seen rc)\<rparr>
                in case exp_arg of
                     None \<Rightarrow> Inr rc1
                   | Some e \<Rightarrow>
                       if e \<noteq> 0 then Inr (rc1\<lparr>jti_timestamps := (jti_timestamps rc1)(k \<mapsto> e)\<rparr>)
                       else Inr rc1)
      else Inr rc)"

definition size_cache :: "ReplayCache \<Rightarrow> nat" where
  "size_cache rc = card (seen rc)"

section \<open>main.py: the \<open>/validate\<close> pipeline\<close>

text \<open>
  The module-level state of main.py is one record: the components built by \<open>lifespan\<close>
  and the \<open>metrics\<close> dict. What the process reads from outside is explicit: \<open>Externals\<close>
  holds the PyJWT decoder and SHA-256, and a \<open>Request\<close> carries the token, the request
  id and the clock readings taken while it is served (\<open>datetime.utcnow()\<close>, \<open>time.time()\<close>
  in the rate limiter, \<open>int(time.time())\<close> in the validator, \<open>time.time()\<close> in the replay
  cache's cleanup). The telemetry sink is outside the model; building the event is not.
\<close>

record Metrics =
  total_requests :: int
  allow_count :: int
  deny_count :: int
  monitor_count :: int
  total_latency_ms :: int
  rate_limit_hits :: int
  replay_detections :: int
  active_users :: int

definition Metrics_init :: Metrics where
  "Metrics_init =
     \<lparr>total_requests = 0, allow_count = 0, deny_count = 0, monitor_count = 0,
      total_latency_ms = 0, rate_limit_hits = 0, replay_detections = 0, active_users = 0\<rparr>"

record Externals =
  jwt_decode :: "string \<Rightarrow> string \<Rightarrow> string \<Rightarrow> exn + pydict"
  sha256_hexdigest :: "string \<Rightarrow> string"

record App =
  settings :: Settings
  jwt_validator :: JWTValidator
  score_provider :: TrustedScoreProvider
  rate_limiter :: RateLimiter
  replay_cache :: ReplayCache
  metrics :: Metrics

record Request =
  token :: string
  x_request_id :: string
  utcnow :: real
  t_rate :: real
  t_jwt :: int
  t_replay :: real

definition lifespan :: "Settings \<Rightarrow> string \<Rightarrow> ScoreRepository \<Rightarrow> App" where
  "lifespan s key repo =
     \<lparr>settings = s,
      jwt_validator = JWTValidator_init s key,
      score_provider = TrustedScoreProvider_init repo (Some s),
      rate_limiter = RateLimiter_init (rate_limit_requests_per_minute s),
      replay_cache = ReplayCache_init,
      metrics = Metrics_init\<rparr>"

definition respond ::
  "Request \<Rightarrow> Decision \<Rightarrow> DenyReason option \<Rightarrow> int option \<Rightarrow> ValidateResponse" where
  "respond req d r sc =
     \<lparr>decision = d, reason = r, request_id = x_request_id req, timestamp = utcnow req,
      score = sc\<rparr>"

definition inc_deny :: "App \<Rightarrow> App" where
  "inc_deny app = app\<lparr>metrics := (metrics app)\<lparr>deny_count := deny_count (metrics app) + 1\<rparr>\<rparr>"

definition inc_allow :: "App \<Rightarrow> App" where
  "inc_allow app = app\<lparr>metrics := (metrics app)\<lparr>allow_count := allow_count (metrics app) + 1\<rparr>\<rparr>"

definition inc_monitor :: "App \<Rightarrow> App" where
  "inc_monitor app =
     app\<lparr>metrics := (metrics app)\<lparr>monitor_count := monitor_count (metrics app) + 1\<rparr>\<rparr>"

definition inc_total :: "App \<Rightarrow> App" where
  "inc_total app =
     app\<lparr>metrics := (metrics app)\<lparr>total_requests := total_requests (metrics app) + 1\<rparr>\<rparr>"

text \<open>\<open>reason_map.get(decoded["error"], DenyReason.INTERNAL_ERROR)\<close>.\<close>

definition reason_map_get :: "jval \<Rightarrow> exn + DenyReason" where
  "reason_map_get v =
     (case py_key v of
        Inl e \<Rightarrow> Inl e
      | Inr k \<Rightarrow>
          Inr (if k = JStr ''expired'' then EXPIRED_TOKEN
               else if k = JStr ''not_yet_valid'' then NOT_YET_VALID
               else if k = JStr ''invalid_signature'' then INVALID_SIGNATURE
               else if k = JStr ''malformed'' then MALFORMED_TOKEN
               else INTERNAL_ERROR))"

text \<open>Steps 4 to 6 and the final response (lines 202 to 232).\<close>

definition decide_stage ::
  "Externals \<Rightarrow> Request \<Rightarrow> jval \<Rightarrow> App \<Rightarrow> (exn + ValidateResponse) \<times> App" where
  "decide_stage ext req user_id app =
     (case make_decision (score_provider app) user_id of
        (d, sc) \<Rightarrow>
          (let app1 = (if d = ALLOW then inc_allow app
                       else if d = DENY then inc_deny app
                       else inc_monitor app);
               r = (if d = DENY then Some LOW_SCORE else None)
           in if telemetry_emit_enabled (settings app)
              then case hash_user_id (sha256_hexdigest ext) user_id of
                     Inl e \<Rightarrow> (Inl e, app1)
                   | Inr h \<Rightarrow> (Inr (respond req d r (Some sc)), app1)
              else (Inr (respond req d r (Some sc)), app1)))"

text \<open>Step 3 (lines 186 to 200).\<close>

definition replay_stage ::
  "Externals \<Rightarrow> Request \<Rightarrow> pydict \<Rightarrow> App \<Rightarrow> (exn + ValidateResponse) \<times> App" where
  "replay_stage ext req decoded app =
     (let user_id = dict_get decoded ''sub'';
          jti = dict_get decoded ''jti''
      in case is_replayed jti (t_replay req) (replay_cache app) of
           (Inl e, rc) \<Rightarrow> (Inl e, app\<lparr>replay_cache := rc\<rparr>)
         | (Inr True, rc) \<Rightarrow>
             (Inr (respond req DENY (Some REPLAY_DETECTED) None),
              inc_deny (app\<lparr>replay_cache := rc\<rparr>))
         | (Inr False, rc) \<Rightarrow>
             (case record_jti jti None rc of
                Inl e \<Rightarrow> (Inl e, app\<lparr>replay_cache := rc\<rparr>)
              | Inr rc' \<Rightarrow> decide_stage ext req user_id (app\<lparr>replay_cache := rc'\<rparr>)))"

text \<open>Step 2 (lines 167 to 184).\<close>

definition jwt_stage ::
  "Externals \<Rightarrow> Request \<Rightarrow> App \<Rightarrow> (exn + ValidateResponse) \<times> App" where
  "jwt_stage ext req app =
     (case jwt_validate_token (jwt_decode ext) (jwt_validator app) (token req) (t_jwt req) of
        Inl e \<Rightarrow> (Inl e, app)
      | Inr decoded \<Rightarrow>
          if dict_has decoded ''error''
          then case reason_map_get (dict_get decoded ''error'') of
                 Inl e \<Rightarrow> (Inl e, app)
               | Inr r \<Rightarrow> (Inr (respond req DENY (Some r) None), inc_deny app)
          else replay_stage ext req decoded app)"

text \<open>The body of the \<open>try\<close> (lines 156 to 232).\<close>

definition validate_body ::
  "Externals \<Rightarrow> Request \<Rightarrow> App \<Rightarrow> (exn + ValidateResponse) \<times> App" where
  "validate_body ext req app =
     (case is_allowed (t_rate req) (rate_limiter app) of
        (allowed, rl) \<Rightarrow>
          if \<not> allowed
          then (Inr (respond req DENY (Some RATE_LIMIT_EXCEEDED) None),
                inc_deny (app\<lparr>rate_limiter := rl\<rparr>))
          else jwt_stage ext req (app\<lparr>rate_limiter := rl\<rparr>))"

text \<open>\<open>validate_token\<close> of main.py: the counter, the \<open>try\<close> and its \<open>except Exception\<close>.\<close>

definition validate_token :: "Externals \<Rightarrow> Request \<Rightarrow> App \<Rightarrow> ValidateResponse \<times> App" where
  "validate_token ext req app =
     (case validate_body ext req (inc_total app) of
        (Inr resp, app') \<Rightarrow> (resp, app')
      | (Inl e, app') \<Rightarrow> (respond req DENY (Some INTERNAL_ERROR) None, inc_deny app'))"

text \<open>Requests served one after the other by one process.\<close>

fun serve :: "Externals \<Rightarrow> Request list \<Rightarrow> App \<Rightarrow> App" where
  "serve ext [] app = app"
| "serve ext (req # reqs) app = serve ext reqs (snd (validate_token ext req app))"

text \<open>
  The identifier a request gets past the replay check, if it gets there: the rate
  limiter allows, the validator returns a dict without \<open>"error"\<close>, and \<open>is_replayed\<close>
  returns \<open>False\<close>; the value is the key \<open>record\<close> stores.
\<close>

definition admitted :: "Externals \<Rightarrow> Request \<Rightarrow> App \<Rightarrow> jval option" where
  "admitted ext req app =
     (if fst (is_allowed (t_rate req) (rate_limiter app))
      then case jwt_validate_token (jwt_decode ext) (jwt_validator app) (token req) (t_jwt req) of
             Inl e \<Rightarrow> None
           | Inr decoded \<Rightarrow>
               if dict_has decoded ''error'' then None
               else (case fst (is_replayed (dict_get decoded ''jti'') (t_replay req)
                                 (replay_cache app)) of
                       Inr False \<Rightarrow>
                         (case py_key (dict_get decoded ''jti'') of
                            Inl e \<Rightarrow> None
                          | Inr k \<Rightarrow> Some k)
                     | other \<Rightarrow> None)
      else None)"

fun admitted_all :: "Externals \<Rightarrow> Request list \<Rightarrow> App \<Rightarrow> jval set" where
  "admitted_all ext [] app = {}"
| "admitted_all ext (req # reqs) app =
     (case admitted ext req app of None \<Rightarrow> {} | Some k \<Rightarrow> {k})
     \<union> admitted_all ext reqs (snd (validate_token ext req app))"

text \<open>
  A request reaches the replay check with identifier \<open>jti\<close>: the rate limiter allows it
  and the validator returns a payload (no \<open>"error"\<close> key) whose \<open>jti\<close> claim is \<open>jti\<close>.
\<close>

definition reaches_replay_check :: "Externals \<Rightarrow> Request \<Rightarrow> App \<Rightarrow> jval \<Rightarrow> bool" where
  "reaches_replay_check ext req app jti =
     (fst (is_allowed (t_rate req) (rate_limiter app)) \<and>
      (case jwt_validate_token (jwt_decode ext) (jwt_validator app) (token req) (t_jwt req) of
         Inl e \<Rightarrow> False
       | Inr decoded \<Rightarrow> \<not> dict_has decoded ''error'' \<and> dict_get decoded ''jti'' = jti))"

section \<open>Observations and concrete inputs\<close>

text \<open>
  What a stage hands back, whatever the state: \<open>stage_ok\<close> collects the facts the
  claims need about one result of a stage started in \<open>app\<close>.
\<close>

definition stage_ok :: "Request \<Rightarrow> App \<Rightarrow> (exn + ValidateResponse) \<times> App \<Rightarrow> bool" where
  "stage_ok req app res =
     ((case fst res of
         Inl e \<Rightarrow> True
       | Inr resp \<Rightarrow>
           (reason resp \<noteq> None) = (decision resp = DENY) \<and>
           request_id resp = x_request_id req \<and> timestamp resp = utcnow req) \<and>
      deny_count (metrics app) \<le> deny_count (metrics (snd res)) \<and>
      rate_limit_hits (metrics (snd res)) = rate_limit_hits (metrics app) \<and>
      replay_detections (metrics (snd res)) = replay_detections (metrics app) \<and>
      score_provider (snd res) = score_provider app \<and>
      jwt_validator (snd res) = jwt_validator app \<and>
      settings (snd res) = settings app)"

text \<open>
  The values the backends hold for a principal: the stored record, the cached record
  and the body returned by the scoring API.
\<close>

definition backend_values :: "TrustedScoreProvider \<Rightarrow> jval \<Rightarrow> int set" where
  "backend_values p user_id =
     {s. repo_get_score (score_repo p) user_id = Inr (Some s)} \<union>
     {s. repo_get_cached_score (score_repo p) user_id = Inr (Some s)} \<union>
     {s. \<exists>st. sp_settings p = Some st \<and> api_fetch (score_repo p) st user_id = Inr s}"

text \<open>
  \<open>MockScoreRepository\<close> of main.py (\<open>startswith("high")\<close> gives 95, \<open>"med"\<close> 50, anything
  else 5; a principal that is not a string has no \<open>startswith\<close>), and a repository whose
  record is the same for every principal.
\<close>

definition MockScoreRepository :: ScoreRepository where
  "MockScoreRepository =
     \<lparr>repo_get_score = (\<lambda>user_id. case user_id of
          JStr s \<Rightarrow> Inr (Some (if take 4 s = ''high'' then 95
                                else if take 3 s = ''med'' then 50 else 5))
        | other \<Rightarrow> Inl AttributeError),
      repo_get_cached_score = (\<lambda>user_id. Inr None),
      repo_cache_score = (\<lambda>user_id s ttl. Inr ()),
      api_fetch = (\<lambda>st user_id. Inl OtherException)\<rparr>"

definition fixed_repo :: "int option \<Rightarrow> ScoreRepository" where
  "fixed_repo r =
     \<lparr>repo_get_score = (\<lambda>user_id. Inr r),
      repo_get_cached_score = (\<lambda>user_id. Inr None),
      repo_cache_score = (\<lambda>user_id s ttl. Inr ()),
      api_fetch = (\<lambda>st user_id. Inl OtherException)\<rparr>"

text \<open>The defaults of config.py.\<close>

definition default_settings :: Settings where
  "default_settings =
     \<lparr>jwt_algorithm = ''RS256'', jwt_clock_drift_seconds = 30,
      rate_limit_requests_per_minute = 100, rate_limit_burst_size = 120,
      score_provider_type = ''database'', score_cache_ttl_seconds = 300,
      telemetry_emit_enabled = True, replay_cache_max_size = 1000000\<rparr>"

text \<open>
  A decoder that accepts seven tokens, each with the payload written here, and rejects
  every other string.
\<close>

definition demo_decode :: "string \<Rightarrow> string \<Rightarrow> string \<Rightarrow> exn + pydict" where
  "demo_decode tok key alg =
     (if tok = ''high'' then
        Inr [(''sub'', JStr ''high_user''), (''jti'', JStr ''j1''), (''exp'', JInt 2000)]
      else if tok = ''high_with_score'' then
        Inr [(''sub'', JStr ''high_user''), (''jti'', JStr ''j2''), (''exp'', JInt 2000),
             (''score'', JInt 1)]
      else if tok = ''bad_exp'' then
        Inr [(''sub'', JStr ''high_user''), (''jti'', JStr ''j3''), (''exp'', JStr ''soon'')]
      else if tok = ''empty_sub'' then
        Inr [(''sub'', JStr []), (''jti'', JStr ''j4''), (''exp'', JInt 2000)]
      else if tok = ''future'' then
        Inr [(''sub'', JStr ''high_user''), (''jti'', JStr ''j5''), (''exp'', JInt 2000),
             (''nbf'', JInt 1500)]
      else if tok = ''no_exp'' then
        Inr [(''sub'', JStr ''high_user''), (''jti'', JStr ''j6'')]
      else if tok = ''no_jti'' then
        Inr [(''sub'', JStr ''high_user''), (''exp'', JInt 2000)]
      else Inl DecodeError)"

definition demo_ext :: Externals where
  "demo_ext = \<lparr>jwt_decode = demo_decode, sha256_hexdigest = (\<lambda>s. ''digest'')\<rparr>"

definition demo_app :: App where
  "demo_app = lifespan default_settings ''public key'' MockScoreRepository"

text \<open>A request whose clock readings are all \<open>t\<close>.\<close>

definition demo_req :: "string \<Rightarrow> int \<Rightarrow> Request" where
  "demo_req tok t =
     \<lparr>token = tok, x_request_id = ''req'', utcnow = real_of_int t, t_rate = real_of_int t,
      t_jwt = t, t_replay = real_of_int t\<rparr>"

text \<open>
  The invariant of the token bucket used in the proofs: the rate is not negative, the
  capacity is at least one, and every stored bucket holds between 0 and the capacity with
  a last update not after \<open>lo\<close>.
\<close>

definition bucket_inv :: "RateLimiter \<Rightarrow> real \<Rightarrow> bool" where
  "bucket_inv rl lo =
     (0 \<le> refill_rate rl \<and> 1 \<le> max_tokens rl \<and>
      (\<forall>k tokens last_update. state rl k = Some (tokens, last_update) \<longrightarrow>
         0 \<le> tokens \<and> tokens \<le> max_tokens rl \<and> last_update \<le> lo))"

text \<open>
  The process after 119 requests within the instant 1000: one token is left. (The
  bucket starts at 119 on the first call and loses one per admitted call.)
\<close>

definition last_token_app :: App where
  "last_token_app =
     demo_app\<lparr>rate_limiter := (rate_limiter demo_app)\<lparr>state := [''global'' \<mapsto> (1, 1000)]\<rparr>\<rparr>"

text \<open>The same process configured with a replay-cache maximum size of 1.\<close>

definition tiny_cache_app :: App where
  "tiny_cache_app =
     lifespan (default_settings\<lparr>replay_cache_max_size := 1\<rparr>) ''public key'' MockScoreRepository"

section \<open>Lemmas about the stages\<close>

lemma metrics_inc [simp]:
  "metrics (inc_deny app) = (metrics app)\<lparr>deny_count := deny_count (metrics app) + 1\<rparr>"
  "metrics (inc_allow app) = (metrics app)\<lparr>allow_count := allow_count (metrics app) + 1\<rparr>"
  "metrics (inc_monitor app) = (metrics app)\<lparr>monitor_count := monitor_count (metrics app) + 1\<rparr>"
  "metrics (inc_total app) = (metrics app)\<lparr>total_requests := total_requests (metrics app) + 1\<rparr>"
  by (simp_all add: inc_deny_def inc_allow_def inc_monitor_def inc_total_def)

lemma inc_deny_frame [simp]:
  "replay_cache (inc_deny app) = replay_cache app"
  "rate_limiter (inc_deny app) = rate_limiter app"
  "score_provider (inc_deny app) = score_provider app"
  "jwt_validator (inc_deny app) = jwt_validator app"
  "settings (inc_deny app) = settings app"
  by (simp_all add: inc_deny_def)

lemma inc_allow_frame [simp]:
  "replay_cache (inc_allow app) = replay_cache app"
  "rate_limiter (inc_allow app) = rate_limiter app"
  "score_provider (inc_allow app) = score_provider app"
  "jwt_validator (inc_allow app) = jwt_validator app"
  "settings (inc_allow app) = settings app"
  by (simp_all add: inc_allow_def)

lemma inc_monitor_frame [simp]:
  "replay_cache (inc_monitor app) = replay_cache app"
  "rate_limiter (inc_monitor app) = rate_limiter app"
  "score_provider (inc_monitor app) = score_provider app"
  "jwt_validator (inc_monitor app) = jwt_validator app"
  "settings (inc_monitor app) = settings app"
  by (simp_all add: inc_monitor_def)

lemma inc_total_frame [simp]:
  "replay_cache (inc_total app) = replay_cache app"
  "rate_limiter (inc_total app) = rate_limiter app"
  "score_provider (inc_total app) = score_provider app"
  "jwt_validator (inc_total app) = jwt_validator app"
  "settings (inc_total app) = settings app"
  by (simp_all add: inc_total_def)

lemma respond_sel [simp]:
  "decision (respond req d r sc) = d"
  "reason (respond req d r sc) = r"
  "request_id (respond req d r sc) = x_request_id req"
  "timestamp (respond req d r sc) = utcnow req"
  "score (respond req d r sc) = sc"
  by (simp_all add: respond_def)

lemma decide_stage_snd:
  "snd (decide_stage ext req u app) =
     (let d = fst (make_decision (score_provider app) u)
      in if d = ALLOW then inc_allow app else if d = DENY then inc_deny app
         else inc_monitor app)"
  by (simp add: decide_stage_def Let_def split: prod.splits sum.splits)

lemma decide_stage_fst:
  "fst (decide_stage ext req u app) =
     (let d = fst (make_decision (score_provider app) u);
          sc = get_score (score_provider app) u
      in if telemetry_emit_enabled (settings app) \<and> (\<forall>s. u \<noteq> JStr s)
         then Inl AttributeError
         else Inr (respond req d (if d = DENY then Some LOW_SCORE else None) (Some sc)))"
  by (cases u) (simp_all add: decide_stage_def make_decision_def Let_def)

lemma decide_stage_resp:
  assumes "decide_stage ext req u app = (Inr resp, app1)"
  shows "\<exists>d. resp = respond req d (if d = DENY then Some LOW_SCORE else None)
                 (Some (get_score (score_provider app) u))"
proof -
  have "fst (decide_stage ext req u app) = Inr resp"
    using assms by simp
  then show ?thesis
    unfolding decide_stage_fst Let_def by (metis Inl_Inr_False sum.inject(2))
qed

lemma decide_stage_frame [simp]:
  "rate_limit_hits (metrics (snd (decide_stage ext req u app))) = rate_limit_hits (metrics app)"
  "replay_detections (metrics (snd (decide_stage ext req u app))) = replay_detections (metrics app)"
  "replay_cache (snd (decide_stage ext req u app)) = replay_cache app"
  "rate_limiter (snd (decide_stage ext req u app)) = rate_limiter app"
  "score_provider (snd (decide_stage ext req u app)) = score_provider app"
  "jwt_validator (snd (decide_stage ext req u app)) = jwt_validator app"
  "settings (snd (decide_stage ext req u app)) = settings app"
  by (simp_all add: decide_stage_snd Let_def)

lemma cleanup_expired_keeps:
  "j \<in> seen rc \<Longrightarrow> jti_timestamps rc j = None \<Longrightarrow> j \<in> seen (cleanup_expired now rc)"
  by (simp add: cleanup_expired_def is_expired_def)

lemma cleanup_expired_no_timestamps:
  "jti_timestamps rc = Map.empty \<Longrightarrow> cleanup_expired now rc = rc"
  by (simp add: cleanup_expired_def is_expired_def)

lemma is_replayed_no_timestamps:
  assumes "jti_timestamps rc = Map.empty"
  shows "is_replayed jti now rc =
           (if \<not> truthy jti then Inr True
            else case py_key jti of Inl e \<Rightarrow> Inl e | Inr k \<Rightarrow> Inr (k \<in> seen rc), rc)"
  using assms
  by (simp add: is_replayed_def cleanup_expired_no_timestamps Let_def split: sum.splits)

lemma record_jti_None:
  "record_jti jti None rc =
     (if truthy jti
      then case py_key jti of Inl e \<Rightarrow> Inl e | Inr k \<Rightarrow> Inr (rc\<lparr>seen := insert k (seen rc)\<rparr>)
      else Inr rc)"
  by (simp add: record_jti_def Let_def split: sum.splits)

text \<open>What the replay stage does when no expiration is stored.\<close>

lemma replay_stage_no_timestamps:
  assumes "jti_timestamps (replay_cache app) = Map.empty"
  shows "replay_stage ext req decoded app =
     (let jti = dict_get decoded ''jti'' in
      if \<not> truthy jti
      then (Inr (respond req DENY (Some REPLAY_DETECTED) None), inc_deny app)
      else case py_key jti of
             Inl e \<Rightarrow> (Inl e, app)
           | Inr k \<Rightarrow>
               if k \<in> seen (replay_cache app)
               then (Inr (respond req DENY (Some REPLAY_DETECTED) None), inc_deny app)
               else decide_stage ext req (dict_get decoded ''sub'')
                      (app\<lparr>replay_cache := (replay_cache app)\<lparr>seen := insert k (seen (replay_cache app))\<rparr>\<rparr>))"
  using assms
  by (simp add: replay_stage_def is_replayed_no_timestamps record_jti_None Let_def
      split: sum.splits)

lemma decide_stage_ok: "stage_ok req app (decide_stage ext req u app)"
  unfolding stage_ok_def
  by (simp add: decide_stage_snd decide_stage_fst Let_def)

lemma replay_stage_cases:
  "\<exists>rc. (\<exists>e. replay_stage ext req decoded app = (Inl e, app\<lparr>replay_cache := rc\<rparr>)) \<or>
        replay_stage ext req decoded app =
          (Inr (respond req DENY (Some REPLAY_DETECTED) None), inc_deny (app\<lparr>replay_cache := rc\<rparr>)) \<or>
        replay_stage ext req decoded app =
          decide_stage ext req (dict_get decoded ''sub'') (app\<lparr>replay_cache := rc\<rparr>)"
proof -
  obtain r rc where ir: "is_replayed (dict_get decoded ''jti'') (t_replay req) (replay_cache app) = (r, rc)"
    by (cases "is_replayed (dict_get decoded ''jti'') (t_replay req) (replay_cache app)")
  show ?thesis
  proof (cases r)
    case (Inl e)
    with ir show ?thesis by (auto simp: replay_stage_def Let_def)
  next
    case (Inr b)
    show ?thesis
    proof (cases b)
      case True
      with Inr ir show ?thesis by (auto simp: replay_stage_def Let_def)
    next
      case False
      show ?thesis
      proof (cases "record_jti (dict_get decoded ''jti'') None rc")
        case (Inl e)
        with False Inr ir show ?thesis by (auto simp: replay_stage_def Let_def)
      next
        case (Inr rc')
        with False \<open>r = Inr b\<close> ir show ?thesis by (auto simp: replay_stage_def Let_def)
      qed
    qed
  qed
qed

lemma stage_ok_Inl: "stage_ok req app (Inl e, app\<lparr>replay_cache := rc\<rparr>)"
  by (simp add: stage_ok_def)

lemma stage_ok_deny:
  "stage_ok req app (Inr (respond req DENY (Some r) None), inc_deny (app\<lparr>replay_cache := rc\<rparr>))"
  by (simp add: stage_ok_def)

lemma stage_ok_replay_cache:
  "stage_ok req (app\<lparr>replay_cache := rc\<rparr>) res \<Longrightarrow> stage_ok req app res"
  by (simp add: stage_ok_def)

lemma replay_stage_ok: "stage_ok req app (replay_stage ext req decoded app)"
proof -
  have d: "stage_ok req app (decide_stage ext req u (app\<lparr>replay_cache := rc\<rparr>))" for u rc
    by (rule stage_ok_replay_cache [OF decide_stage_ok])
  show ?thesis
    using replay_stage_cases [of ext req decoded app]
    by (auto simp: stage_ok_Inl stage_ok_deny d)
qed

lemma jwt_stage_ok: "stage_ok req app (jwt_stage ext req app)"
proof (cases "jwt_validate_token (jwt_decode ext) (jwt_validator app) (token req) (t_jwt req)")
  case (Inl e)
  then show ?thesis by (simp add: jwt_stage_def stage_ok_def)
next
  case (Inr decoded)
  show ?thesis
  proof (cases "dict_has decoded ''error''")
    case True
    with Inr show ?thesis
      by (cases "reason_map_get (dict_get decoded ''error'')")
         (simp_all add: jwt_stage_def stage_ok_def)
  next
    case False
    with Inr show ?thesis by (simp add: jwt_stage_def replay_stage_ok)
  qed
qed

lemma stage_ok_rate_limiter:
  "stage_ok req (app\<lparr>rate_limiter := rl\<rparr>) res \<Longrightarrow> stage_ok req app res"
  by (simp add: stage_ok_def)

lemma validate_body_ok: "stage_ok req app (validate_body ext req app)"
proof (cases "is_allowed (t_rate req) (rate_limiter app)")
  case (Pair allowed rl)
  show ?thesis
  proof (cases allowed)
    case True
    with Pair show ?thesis
      by (simp add: validate_body_def stage_ok_rate_limiter [OF jwt_stage_ok])
  next
    case False
    with Pair show ?thesis by (simp add: validate_body_def stage_ok_def)
  qed
qed

lemma stage_ok_inc_total:
  "stage_ok req (inc_total app) res \<Longrightarrow> stage_ok req app res"
  by (simp add: stage_ok_def)

lemma dict_has_error_dict [simp]: "dict_has (error_dict kind) ''error''"
  by (simp add: error_dict_def dict_has_def)

lemma check_required_success:
  "check_required payload = Inr d \<Longrightarrow> \<not> dict_has d ''error'' \<Longrightarrow>
     d = payload \<and> dict_has payload ''jti'' \<and> dict_has payload ''sub''"
  by (auto simp: check_required_def split: if_splits)

lemma check_nbf_success:
  "check_nbf v now payload = Inr d \<Longrightarrow> \<not> dict_has d ''error'' \<Longrightarrow>
     check_required payload = Inr d"
  by (auto simp: check_nbf_def split: jval.splits sum.splits if_splits)

lemma check_exp_success:
  "check_exp v now payload = Inr d \<Longrightarrow> \<not> dict_has d ''error'' \<Longrightarrow>
     check_nbf v now payload = Inr d"
  by (auto simp: check_exp_def split: jval.splits sum.splits if_splits)

lemma jwt_validate_token_success:
  assumes "jwt_validate_token dec v tok now = Inr d" and "\<not> dict_has d ''error''"
  shows "dec tok (public_key v) (algorithm v) = Inr d \<and> dict_has d ''jti'' \<and> dict_has d ''sub''"
proof (cases "dec tok (public_key v) (algorithm v)")
  case (Inl e)
  with assms show ?thesis
    by (cases e) (auto simp: jwt_validate_token_def split: if_splits)
next
  case (Inr payload)
  with assms have "check_exp v now payload = Inr d"
    by (auto simp: jwt_validate_token_def split: if_splits)
  from check_required_success [OF check_nbf_success [OF check_exp_success [OF this assms(2)] assms(2)] assms(2)]
  show ?thesis using Inr by simp
qed

lemma replay_stage_score:
  assumes "replay_stage ext req decoded app = (Inr resp, app1)" and "score resp = Some s"
  shows "s = get_score (score_provider app) (dict_get decoded ''sub'')"
proof -
  from replay_stage_cases [of ext req decoded app] obtain rc where
    "replay_stage ext req decoded app =
       (Inr (respond req DENY (Some REPLAY_DETECTED) None), inc_deny (app\<lparr>replay_cache := rc\<rparr>)) \<or>
     replay_stage ext req decoded app =
       decide_stage ext req (dict_get decoded ''sub'') (app\<lparr>replay_cache := rc\<rparr>)"
    using assms(1) by auto
  then show ?thesis
  proof
    assume "replay_stage ext req decoded app =
       (Inr (respond req DENY (Some REPLAY_DETECTED) None), inc_deny (app\<lparr>replay_cache := rc\<rparr>))"
    with assms show ?thesis by auto
  next
    assume "replay_stage ext req decoded app =
       decide_stage ext req (dict_get decoded ''sub'') (app\<lparr>replay_cache := rc\<rparr>)"
    with assms(1) have "decide_stage ext req (dict_get decoded ''sub'') (app\<lparr>replay_cache := rc\<rparr>)
        = (Inr resp, app1)" by simp
    from decide_stage_resp [OF this] assms(2) show ?thesis by auto
  qed
qed

lemma jwt_stage_score:
  assumes "jwt_stage ext req app = (Inr resp, app1)" and "score resp = Some s"
  shows "\<exists>p. jwt_decode ext (token req) (public_key (jwt_validator app))
               (algorithm (jwt_validator app)) = Inr p \<and>
             s = get_score (score_provider app) (dict_get p ''sub'')"
proof (cases "jwt_validate_token (jwt_decode ext) (jwt_validator app) (token req) (t_jwt req)")
  case (Inl e)
  with assms show ?thesis by (simp add: jwt_stage_def)
next
  case (Inr decoded)
  show ?thesis
  proof (cases "dict_has decoded ''error''")
    case True
    with Inr assms show ?thesis
      by (cases "reason_map_get (dict_get decoded ''error'')")
         (auto simp: jwt_stage_def)
  next
    case False
    with Inr assms have "replay_stage ext req decoded app = (Inr resp, app1)"
      by (simp add: jwt_stage_def)
    from replay_stage_score [OF this assms(2)] jwt_validate_token_success [OF Inr False]
    show ?thesis by blast
  qed
qed

lemma validate_token_score:
  assumes "score (fst (validate_token ext req app)) = Some s"
  shows "\<exists>p. jwt_decode ext (token req) (public_key (jwt_validator app))
               (algorithm (jwt_validator app)) = Inr p \<and>
             s = get_score (score_provider app) (dict_get p ''sub'')"
proof -
  obtain allowed rl where ia: "is_allowed (t_rate req) (rate_limiter app) = (allowed, rl)"
    by (cases "is_allowed (t_rate req) (rate_limiter app)")
  obtain r app1 where vb: "validate_body ext req (inc_total app) = (r, app1)"
    by (cases "validate_body ext req (inc_total app)")
  from assms vb obtain resp where r: "r = Inr resp" and sc: "score resp = Some s"
    by (cases r) (auto simp: validate_token_def)
  from vb r ia sc have "jwt_stage ext req ((inc_total app)\<lparr>rate_limiter := rl\<rparr>) = (Inr resp, app1)"
    by (cases allowed) (auto simp: validate_body_def)
  from jwt_stage_score [OF this sc] show ?thesis by simp
qed

lemma demo_bad_exp_raises:
  "fst (validate_body demo_ext (demo_req ''bad_exp'' 1000) (inc_total demo_app)) = Inl TypeError"
  by (simp add: validate_body_def is_allowed_def demo_app_def lifespan_def RateLimiter_init_def
      demo_req_def jwt_stage_def jwt_validate_token_def demo_ext_def demo_decode_def
      JWTValidator_init_def default_settings_def check_exp_def dict_get_def inc_total_def)

lemma get_score_fixed_repo:
  "get_score (TrustedScoreProvider_init (fixed_repo r) None) u = (case r of None \<Rightarrow> 0 | Some s \<Rightarrow> s)"
  by (simp add: get_score_def TrustedScoreProvider_init_def fixed_repo_def get_from_database_def
      split: option.splits)

section \<open>The pipeline always answers\<close>

text \<open>
  C1. \<open>validate_token\<close> is a total function into \<open>ValidateResponse\<close>: every point of the
  body that can raise is an \<open>Inl\<close> result of \<open>validate_body\<close>, and the handler turns it
  into a response. For every request and every state, the response carries a deny
  reason exactly when its decision is DENY, echoes the request id and the timestamp, and
  never lowers \<open>deny_count\<close>; and whenever the body raises, the response is DENY with
  INTERNAL\_ERROR and no score, and \<open>deny_count\<close> is one more than it was when the
  exception was raised (so more than before the request).
\<close>

theorem validate_token_always_responds:
  "(reason (fst (validate_token ext req app)) \<noteq> None) =
     (decision (fst (validate_token ext req app)) = DENY) \<and>
   request_id (fst (validate_token ext req app)) = x_request_id req \<and>
   timestamp (fst (validate_token ext req app)) = utcnow req \<and>
   deny_count (metrics app) \<le> deny_count (metrics (snd (validate_token ext req app))) \<and>
   (\<forall>e app1. validate_body ext req (inc_total app) = (Inl e, app1) \<longrightarrow>
      validate_token ext req app = (respond req DENY (Some INTERNAL_ERROR) None, inc_deny app1) \<and>
      deny_count (metrics (snd (validate_token ext req app))) = deny_count (metrics app1) + 1 \<and>
      deny_count (metrics app) < deny_count (metrics (snd (validate_token ext req app))))"
proof -
  have ok: "stage_ok req app (validate_body ext req (inc_total app))"
    by (rule stage_ok_inc_total [OF validate_body_ok])
  obtain r app1 where vb: "validate_body ext req (inc_total app) = (r, app1)"
    by (cases "validate_body ext req (inc_total app)")
  show ?thesis
  proof (cases r)
    case (Inl e)
    with vb ok show ?thesis by (simp add: validate_token_def stage_ok_def)
  next
    case (Inr resp)
    with vb ok show ?thesis by (simp add: validate_token_def stage_ok_def)
  qed
qed

theorem validate_token_always_responds_witness:
  "fst (validate_body demo_ext (demo_req ''bad_exp'' 1000) (inc_total demo_app)) = Inl TypeError \<and>
   fst (validate_token demo_ext (demo_req ''bad_exp'' 1000) demo_app) =
     respond (demo_req ''bad_exp'' 1000) DENY (Some INTERNAL_ERROR) None \<and>
   deny_count (metrics demo_app) <
     deny_count (metrics (snd (validate_token demo_ext (demo_req ''bad_exp'' 1000) demo_app)))"
proof -
  have "validate_body demo_ext (demo_req ''bad_exp'' 1000) (inc_total demo_app) =
          (Inl TypeError, snd (validate_body demo_ext (demo_req ''bad_exp'' 1000) (inc_total demo_app)))"
    using demo_bad_exp_raises by (metis prod.collapse)
  with validate_token_always_responds [of demo_ext "demo_req ''bad_exp'' 1000" demo_app]
  have "validate_token demo_ext (demo_req ''bad_exp'' 1000) demo_app =
          (respond (demo_req ''bad_exp'' 1000) DENY (Some INTERNAL_ERROR) None,
           inc_deny (snd (validate_body demo_ext (demo_req ''bad_exp'' 1000) (inc_total demo_app)))) \<and>
        deny_count (metrics demo_app) <
          deny_count (metrics (snd (validate_token demo_ext (demo_req ''bad_exp'' 1000) demo_app)))"
    by blast
  then have a: "validate_token demo_ext (demo_req ''bad_exp'' 1000) demo_app =
          (respond (demo_req ''bad_exp'' 1000) DENY (Some INTERNAL_ERROR) None,
           inc_deny (snd (validate_body demo_ext (demo_req ''bad_exp'' 1000) (inc_total demo_app))))"
    and b: "deny_count (metrics demo_app) <
          deny_count (metrics (snd (validate_token demo_ext (demo_req ''bad_exp'' 1000) demo_app)))"
    by blast+
  from a have "fst (validate_token demo_ext (demo_req ''bad_exp'' 1000) demo_app) =
          respond (demo_req ''bad_exp'' 1000) DENY (Some INTERNAL_ERROR) None"
    by (simp only: fst_conv)
  with b demo_bad_exp_raises show ?thesis by blast
qed

section \<open>Thresholds of the decision engine\<close>

text \<open>
  C3. Whatever integer the score provider returns, \<open>make_decision\<close> returns that integer
  unchanged, with ALLOW exactly when it is at least 70, MONITOR exactly when it is at
  least 50 and below 70, and DENY exactly when it is below 50. The witness evaluates
  both lower bounds and their predecessors.
\<close>

theorem make_decision_thresholds:
  "get_score p user_id = s \<Longrightarrow>
     make_decision p user_id =
       (if s \<ge> 70 then ALLOW else if s \<ge> 50 then MONITOR else DENY, s) \<and>
     (fst (make_decision p user_id) = ALLOW) = (s \<ge> 70) \<and>
     (fst (make_decision p user_id) = MONITOR) = (50 \<le> s \<and> s < 70) \<and>
     (fst (make_decision p user_id) = DENY) = (s < 50) \<and>
     snd (make_decision p user_id) = s"
  by (auto simp: make_decision_def ALLOW_THRESHOLD_def MONITOR_THRESHOLD_def Let_def)

theorem make_decision_thresholds_witness:
  "make_decision (TrustedScoreProvider_init (fixed_repo (Some 70)) None) (JStr ''u'') = (ALLOW, 70) \<and>
   make_decision (TrustedScoreProvider_init (fixed_repo (Some 69)) None) (JStr ''u'') = (MONITOR, 69) \<and>
   make_decision (TrustedScoreProvider_init (fixed_repo (Some 50)) None) (JStr ''u'') = (MONITOR, 50) \<and>
   make_decision (TrustedScoreProvider_init (fixed_repo (Some 49)) None) (JStr ''u'') = (DENY, 49) \<and>
   make_decision (TrustedScoreProvider_init (fixed_repo (Some (- 3))) None) (JStr ''u'') = (DENY, - 3)"
  using make_decision_thresholds [of "TrustedScoreProvider_init (fixed_repo (Some 70)) None" "JStr ''u''" 70]
    make_decision_thresholds [of "TrustedScoreProvider_init (fixed_repo (Some 69)) None" "JStr ''u''" 69]
    make_decision_thresholds [of "TrustedScoreProvider_init (fixed_repo (Some 50)) None" "JStr ''u''" 50]
    make_decision_thresholds [of "TrustedScoreProvider_init (fixed_repo (Some 49)) None" "JStr ''u''" 49]
    make_decision_thresholds [of "TrustedScoreProvider_init (fixed_repo (Some (- 3))) None" "JStr ''u''" "- 3"]
  by (simp add: get_score_fixed_repo)

section \<open>Evaluating the concrete inputs\<close>

lemmas demo_eval =
  validate_token_def validate_body_def is_allowed_def demo_app_def lifespan_def
  RateLimiter_init_def demo_req_def jwt_stage_def jwt_validate_token_def demo_ext_def
  demo_decode_def JWTValidator_init_def default_settings_def check_exp_def check_nbf_def
  check_required_def dict_get_def dict_has_def inc_total_def replay_stage_def
  ReplayCache_init_def is_replayed_def record_jti_def cleanup_expired_def is_expired_def
  decide_stage_def make_decision_def get_score_def get_from_database_def
  TrustedScoreProvider_init_def MockScoreRepository_def ALLOW_THRESHOLD_def
  MONITOR_THRESHOLD_def Metrics_init_def respond_def inc_allow_def inc_deny_def
  inc_monitor_def error_dict_def reason_map_get_def Let_def

lemma demo_high_score:
  "score (fst (validate_token demo_ext (demo_req ''high'' 1000) demo_app)) = Some 95"
  by (simp add: demo_eval)

lemma demo_high_with_score_score:
  "score (fst (validate_token demo_ext (demo_req ''high_with_score'' 1000) demo_app)) = Some 95"
  by (simp add: demo_eval)

section \<open>The score comes from the provider, not from the token\<close>

text \<open>
  C2. Take two requests whose tokens decode to payloads with the same \<open>sub\<close> claim, served
  by states that hold the same score provider. Whenever both responses carry a score,
  the two scores are equal, and equal to \<open>get_score\<close> of the provider at that \<open>sub\<close>:
  nothing else of either payload is read. In the witness the second payload carries a
  claim named \<open>score\<close> with value 1, and both responses carry 95.
\<close>

theorem score_depends_on_sub_only:
  assumes "score_provider app2 = score_provider app1"
    and "jwt_decode ext (token req1) (public_key (jwt_validator app1)) (algorithm (jwt_validator app1)) = Inr p1"
    and "jwt_decode ext (token req2) (public_key (jwt_validator app2)) (algorithm (jwt_validator app2)) = Inr p2"
    and "dict_get p1 ''sub'' = dict_get p2 ''sub''"
    and "score (fst (validate_token ext req1 app1)) = Some s1"
    and "score (fst (validate_token ext req2 app2)) = Some s2"
  shows "s1 = s2 \<and> s1 = get_score (score_provider app1) (dict_get p1 ''sub'')"
proof -
  from validate_token_score [OF assms(5)] assms(2)
  have a: "s1 = get_score (score_provider app1) (dict_get p1 ''sub'')" by auto
  from validate_token_score [OF assms(6)] assms(3)
  have "s2 = get_score (score_provider app2) (dict_get p2 ''sub'')" by auto
  with a assms(1,4) show ?thesis by simp
qed

theorem score_depends_on_sub_only_witness:
  "score (fst (validate_token demo_ext (demo_req ''high'' 1000) demo_app)) = Some 95 \<and>
   score (fst (validate_token demo_ext (demo_req ''high_with_score'' 1000) demo_app)) = Some 95 \<and>
   dict_get [(''sub'', JStr ''high_user''), (''jti'', JStr ''j2''), (''exp'', JInt 2000),
             (''score'', JInt 1)] ''score'' = JInt 1 \<and>
   get_score (score_provider demo_app) (JStr ''high_user'') = 95"
proof -
  have d1: "jwt_decode demo_ext (token (demo_req ''high'' 1000)) (public_key (jwt_validator demo_app))
              (algorithm (jwt_validator demo_app)) =
            Inr [(''sub'', JStr ''high_user''), (''jti'', JStr ''j1''), (''exp'', JInt 2000)]"
    by (simp add: demo_ext_def demo_decode_def demo_req_def)
  have d2: "jwt_decode demo_ext (token (demo_req ''high_with_score'' 1000))
              (public_key (jwt_validator demo_app)) (algorithm (jwt_validator demo_app)) =
            Inr [(''sub'', JStr ''high_user''), (''jti'', JStr ''j2''), (''exp'', JInt 2000),
                 (''score'', JInt 1)]"
    by (simp add: demo_ext_def demo_decode_def demo_req_def)
  have sub: "dict_get [(''sub'', JStr ''high_user''), (''jti'', JStr ''j1''), (''exp'', JInt 2000)] ''sub'' =
             dict_get [(''sub'', JStr ''high_user''), (''jti'', JStr ''j2''), (''exp'', JInt 2000),
                       (''score'', JInt 1)] ''sub''"
    by (simp add: dict_get_def)
  from score_depends_on_sub_only [OF refl d1 d2 sub demo_high_score demo_high_with_score_score]
  show ?thesis
    by (simp add: demo_high_score demo_high_with_score_score dict_get_def)
qed

section \<open>Temporal checks of the validator\<close>

text \<open>
  C5. For a non-empty token whose signature verifies (the decoder returns a payload),
  the checks run in the order the validator writes them: a payload without \<open>exp\<close> is
  malformed; with an integer \<open>exp\<close> and \<open>now > exp + clock_drift\<close> it is expired; not
  expired, with an integer \<open>nbf\<close> and \<open>now < nbf - clock_drift\<close>, it is not yet valid;
  and with \<open>now\<close> between \<open>exp - clock_drift\<close> and \<open>exp + clock_drift\<close> the result is never
  the expired error.
\<close>

theorem temporal_checks_with_drift:
  assumes "tok \<noteq> []" and "dec tok (public_key v) (algorithm v) = Inr payload"
  shows "(\<not> dict_has payload ''exp'' \<longrightarrow>
            jwt_validate_token dec v tok now = Inr (error_dict ''malformed'')) \<and>
         (\<forall>e. dict_get payload ''exp'' = JInt e \<and> now > e + clock_drift v \<longrightarrow>
            jwt_validate_token dec v tok now = Inr (error_dict ''expired'')) \<and>
         (\<forall>e n. dict_get payload ''exp'' = JInt e \<and> \<not> now > e + clock_drift v \<and>
                dict_get payload ''nbf'' = JInt n \<and> now < n - clock_drift v \<longrightarrow>
            jwt_validate_token dec v tok now = Inr (error_dict ''not_yet_valid'')) \<and>
         (\<forall>e. dict_get payload ''exp'' = JInt e \<and>
              e - clock_drift v \<le> now \<and> now \<le> e + clock_drift v \<longrightarrow>
            jwt_validate_token dec v tok now \<noteq> Inr (error_dict ''expired''))"
proof -
  have v: "jwt_validate_token dec v tok now = check_exp v now payload"
    using assms by (simp add: jwt_validate_token_def)
  have a: "\<not> dict_has payload ''exp'' \<Longrightarrow> check_exp v now payload = Inr (error_dict ''malformed'')"
    by (simp add: check_exp_def dict_get_def dict_has_def)
  have b: "dict_get payload ''exp'' = JInt e \<Longrightarrow> now > e + clock_drift v \<Longrightarrow>
             check_exp v now payload = Inr (error_dict ''expired'')" for e
    by (simp add: check_exp_def)
  have c: "dict_get payload ''exp'' = JInt e \<Longrightarrow> \<not> now > e + clock_drift v \<Longrightarrow>
             check_exp v now payload = check_nbf v now payload" for e
    by (simp add: check_exp_def)
  have d: "dict_get payload ''nbf'' = JInt n \<Longrightarrow> now < n - clock_drift v \<Longrightarrow>
             check_nbf v now payload = Inr (error_dict ''not_yet_valid'')" for n
    by (simp add: check_nbf_def)
  have e: "dict_get payload ''exp'' = JInt e \<Longrightarrow>
             check_nbf v now payload \<noteq> Inr (error_dict ''expired'')" for e
    by (auto simp: check_nbf_def check_required_def error_dict_def dict_get_def
        split: jval.splits sum.splits if_splits)
  show ?thesis
    unfolding v using a b c d e by (simp add: not_less)
qed

theorem temporal_checks_with_drift_witness:
  "jwt_validate_token demo_decode (JWTValidator_init default_settings ''k'') ''no_exp'' 1000 =
     Inr (error_dict ''malformed'') \<and>
   jwt_validate_token demo_decode (JWTValidator_init default_settings ''k'') ''high'' 2031 =
     Inr (error_dict ''expired'') \<and>
   jwt_validate_token demo_decode (JWTValidator_init default_settings ''k'') ''future'' 1469 =
     Inr (error_dict ''not_yet_valid'') \<and>
   jwt_validate_token demo_decode (JWTValidator_init default_settings ''k'') ''high'' 2030 \<noteq>
     Inr (error_dict ''expired'') \<and>
   jwt_validate_token demo_decode (JWTValidator_init default_settings ''k'') ''high'' 1970 \<noteq>
     Inr (error_dict ''expired'')"
  using
    temporal_checks_with_drift [of "''no_exp''" demo_decode "JWTValidator_init default_settings ''k''"
      "[(''sub'', JStr ''high_user''), (''jti'', JStr ''j6'')]" 1000]
    temporal_checks_with_drift [of "''high''" demo_decode "JWTValidator_init default_settings ''k''"
      "[(''sub'', JStr ''high_user''), (''jti'', JStr ''j1''), (''exp'', JInt 2000)]" 2031]
    temporal_checks_with_drift [of "''future''" demo_decode "JWTValidator_init default_settings ''k''"
      "[(''sub'', JStr ''high_user''), (''jti'', JStr ''j5''), (''exp'', JInt 2000), (''nbf'', JInt 1500)]" 1469]
    temporal_checks_with_drift [of "''high''" demo_decode "JWTValidator_init default_settings ''k''"
      "[(''sub'', JStr ''high_user''), (''jti'', JStr ''j1''), (''exp'', JInt 2000)]" 2030]
    temporal_checks_with_drift [of "''high''" demo_decode "JWTValidator_init default_settings ''k''"
      "[(''sub'', JStr ''high_user''), (''jti'', JStr ''j1''), (''exp'', JInt 2000)]" 1970]
  by (simp add: demo_decode_def JWTValidator_init_def default_settings_def dict_get_def dict_has_def)

section \<open>Range of the score provider\<close>

text \<open>
  C6 as stated fails: \<open>get_score\<close> has no range check. A repository that stores 150 (or
  -5) for a principal makes \<open>get_score\<close> return 150 (or -5), not 0.
\<close>

theorem get_score_out_of_range_counterexample:
  "get_score (TrustedScoreProvider_init (fixed_repo (Some 150)) (Some default_settings)) (JStr ''u'') = 150 \<and>
   \<not> get_score (TrustedScoreProvider_init (fixed_repo (Some 150)) (Some default_settings)) (JStr ''u'') \<le> 100 \<and>
   get_score (TrustedScoreProvider_init (fixed_repo (Some (- 5))) (Some default_settings)) (JStr ''u'') = - 5"
  by (simp add: get_score_def TrustedScoreProvider_init_def fixed_repo_def get_from_database_def
      default_settings_def)

lemma get_score_database:
  "provider_type p = ''database'' \<Longrightarrow>
     get_score p u = (case repo_get_score (score_repo p) u of
                        Inl e \<Rightarrow> 0 | Inr None \<Rightarrow> 0 | Inr (Some s) \<Rightarrow> s)"
  by (simp add: get_score_def get_from_database_def split: sum.splits option.splits)

lemma get_score_redis:
  "provider_type p = ''redis'' \<Longrightarrow>
     get_score p u =
       (case repo_get_cached_score (score_repo p) u of
          Inl e \<Rightarrow> 0
        | Inr (Some c) \<Rightarrow> c
        | Inr None \<Rightarrow>
            (case repo_get_score (score_repo p) u of
               Inl e \<Rightarrow> 0
             | Inr None \<Rightarrow> 0
             | Inr (Some s) \<Rightarrow>
                 (case repo_cache_score (score_repo p) u s
                         (case sp_settings p of Some st \<Rightarrow> score_cache_ttl_seconds st | None \<Rightarrow> 300) of
                    Inl e \<Rightarrow> 0
                  | Inr x \<Rightarrow> s)))"
  by (simp add: get_score_def get_from_redis_def Let_def split: sum.splits option.splits)

lemma get_score_external_api:
  "provider_type p = ''external_api'' \<Longrightarrow>
     get_score p u =
       (case sp_settings p of
          None \<Rightarrow> 0
        | Some st \<Rightarrow> (case api_fetch (score_repo p) st u of Inl e \<Rightarrow> 0 | Inr s \<Rightarrow> s))"
  by (simp add: get_score_def get_from_api_def split: sum.splits option.splits)

lemma get_score_unknown_type:
  "provider_type p \<noteq> ''database'' \<Longrightarrow> provider_type p \<noteq> ''redis'' \<Longrightarrow>
   provider_type p \<noteq> ''external_api'' \<Longrightarrow> get_score p u = 0"
  by (simp add: get_score_def)

lemma get_score_zero_or_backend:
  "get_score p u = 0 \<or> get_score p u \<in> backend_values p u"
proof -
  consider "provider_type p = ''database''" | "provider_type p = ''redis''"
    | "provider_type p = ''external_api''"
    | "provider_type p \<noteq> ''database''" "provider_type p \<noteq> ''redis''"
      "provider_type p \<noteq> ''external_api''"
    by blast
  then show ?thesis
  proof cases
    case 1
    then show ?thesis
      by (auto simp: get_score_database backend_values_def split: sum.splits option.splits)
  next
    case 2
    then show ?thesis
      by (auto simp: get_score_redis backend_values_def split: sum.splits option.splits)
  next
    case 3
    then show ?thesis
      by (auto simp: get_score_external_api backend_values_def split: sum.splits option.splits)
  next
    case 4
    then show ?thesis by (simp add: get_score_unknown_type)
  qed
qed

text \<open>
  C6, amended. \<open>get_score\<close> returns 0 or a value held by a backend, unchanged; so it lies
  in [0, 100] whenever the backends' values for that principal do. It returns 0 for an
  unrecognized backend type, for a backend call that raises and for an absent record;
  with the cached backend, on a miss with a stored record, it returns that record when
  the cache write succeeds and 0 when the cache write raises.
\<close>

theorem get_score_fail_closed_passthrough:
  "(get_score p u = 0 \<or> get_score p u \<in> backend_values p u) \<and>
   ((\<forall>s \<in> backend_values p u. 0 \<le> s \<and> s \<le> 100) \<longrightarrow> 0 \<le> get_score p u \<and> get_score p u \<le> 100) \<and>
   (provider_type p \<noteq> ''database'' \<and> provider_type p \<noteq> ''redis'' \<and>
      provider_type p \<noteq> ''external_api'' \<longrightarrow> get_score p u = 0) \<and>
   (provider_type p = ''database'' \<longrightarrow>
      ((\<exists>e. repo_get_score (score_repo p) u = Inl e) \<longrightarrow> get_score p u = 0) \<and>
      (repo_get_score (score_repo p) u = Inr None \<longrightarrow> get_score p u = 0) \<and>
      (\<forall>s. repo_get_score (score_repo p) u = Inr (Some s) \<longrightarrow> get_score p u = s)) \<and>
   (provider_type p = ''redis'' \<longrightarrow>
      ((\<exists>e. repo_get_cached_score (score_repo p) u = Inl e) \<longrightarrow> get_score p u = 0) \<and>
      (\<forall>c. repo_get_cached_score (score_repo p) u = Inr (Some c) \<longrightarrow> get_score p u = c) \<and>
      (repo_get_cached_score (score_repo p) u = Inr None \<longrightarrow>
         ((\<exists>e. repo_get_score (score_repo p) u = Inl e) \<longrightarrow> get_score p u = 0) \<and>
         (repo_get_score (score_repo p) u = Inr None \<longrightarrow> get_score p u = 0) \<and>
         (\<forall>s. repo_get_score (score_repo p) u = Inr (Some s) \<longrightarrow>
              ((\<exists>e. repo_cache_score (score_repo p) u s
                       (case sp_settings p of Some st \<Rightarrow> score_cache_ttl_seconds st
                                            | None \<Rightarrow> 300) = Inl e) \<longrightarrow>
                 get_score p u = 0) \<and>
              ((\<exists>x. repo_cache_score (score_repo p) u s
                       (case sp_settings p of Some st \<Rightarrow> score_cache_ttl_seconds st
                                            | None \<Rightarrow> 300) = Inr x) \<longrightarrow>
                 get_score p u = s)))) \<and>
   (provider_type p = ''external_api'' \<longrightarrow>
      (sp_settings p = None \<longrightarrow> get_score p u = 0) \<and>
      (\<forall>st. sp_settings p = Some st \<longrightarrow>
         ((\<exists>e. api_fetch (score_repo p) st u = Inl e) \<longrightarrow> get_score p u = 0) \<and>
         (\<forall>s. api_fetch (score_repo p) st u = Inr s \<longrightarrow> get_score p u = s)))"
proof (intro conjI)
  show "get_score p u = 0 \<or> get_score p u \<in> backend_values p u"
    by (rule get_score_zero_or_backend)
  show "(\<forall>s \<in> backend_values p u. 0 \<le> s \<and> s \<le> 100) \<longrightarrow> 0 \<le> get_score p u \<and> get_score p u \<le> 100"
    using get_score_zero_or_backend [of p u] by auto
  show "provider_type p \<noteq> ''database'' \<and> provider_type p \<noteq> ''redis'' \<and>
      provider_type p \<noteq> ''external_api'' \<longrightarrow> get_score p u = 0"
    by (simp add: get_score_unknown_type)
  show "provider_type p = ''database'' \<longrightarrow>
      ((\<exists>e. repo_get_score (score_repo p) u = Inl e) \<longrightarrow> get_score p u = 0) \<and>
      (repo_get_score (score_repo p) u = Inr None \<longrightarrow> get_score p u = 0) \<and>
      (\<forall>s. repo_get_score (score_repo p) u = Inr (Some s) \<longrightarrow> get_score p u = s)"
    by (auto simp: get_score_database)
  show "provider_type p = ''redis'' \<longrightarrow>
      ((\<exists>e. repo_get_cached_score (score_repo p) u = Inl e) \<longrightarrow> get_score p u = 0) \<and>
      (\<forall>c. repo_get_cached_score (score_repo p) u = Inr (Some c) \<longrightarrow> get_score p u = c) \<and>
      (repo_get_cached_score (score_repo p) u = Inr None \<longrightarrow>
         ((\<exists>e. repo_get_score (score_repo p) u = Inl e) \<longrightarrow> get_score p u = 0) \<and>
         (repo_get_score (score_repo p) u = Inr None \<longrightarrow> get_score p u = 0) \<and>
         (\<forall>s. repo_get_score (score_repo p) u = Inr (Some s) \<longrightarrow>
              ((\<exists>e. repo_cache_score (score_repo p) u s
                       (case sp_settings p of Some st \<Rightarrow> score_cache_ttl_seconds st
                                            | None \<Rightarrow> 300) = Inl e) \<longrightarrow>
                 get_score p u = 0) \<and>
              ((\<exists>x. repo_cache_score (score_repo p) u s
                       (case sp_settings p of Some st \<Rightarrow> score_cache_ttl_seconds st
                                            | None \<Rightarrow> 300) = Inr x) \<longrightarrow>
                 get_score p u = s)))"
    by (auto simp: get_score_redis split: sum.splits)
  show "provider_type p = ''external_api'' \<longrightarrow>
      (sp_settings p = None \<longrightarrow> get_score p u = 0) \<and>
      (\<forall>st. sp_settings p = Some st \<longrightarrow>
         ((\<exists>e. api_fetch (score_repo p) st u = Inl e) \<longrightarrow> get_score p u = 0) \<and>
         (\<forall>s. api_fetch (score_repo p) st u = Inr s \<longrightarrow> get_score p u = s))"
    by (auto simp: get_score_external_api)
qed

theorem get_score_fail_closed_passthrough_witness:
  "get_score (TrustedScoreProvider_init (fixed_repo (Some 42)) None) (JStr ''u'') = 42 \<and>
   0 \<le> get_score (TrustedScoreProvider_init (fixed_repo (Some 42)) None) (JStr ''u'') \<and>
   get_score (TrustedScoreProvider_init (fixed_repo (Some 42)) None) (JStr ''u'') \<le> 100 \<and>
   get_score (TrustedScoreProvider_init (fixed_repo None) None) (JStr ''u'') = 0 \<and>
   get_score (TrustedScoreProvider_init MockScoreRepository None) (JInt 7) = 0 \<and>
   get_score ((TrustedScoreProvider_init (fixed_repo (Some 42)) None)\<lparr>provider_type := ''direct''\<rparr>)
     (JStr ''u'') = 0 \<and>
   get_score ((TrustedScoreProvider_init (fixed_repo (Some 42)) None)\<lparr>provider_type := ''redis''\<rparr>)
     (JStr ''u'') = 42"
  using
    get_score_fail_closed_passthrough [of "TrustedScoreProvider_init (fixed_repo (Some 42)) None" "JStr ''u''"]
    get_score_fail_closed_passthrough [of "TrustedScoreProvider_init (fixed_repo None) None" "JStr ''u''"]
    get_score_fail_closed_passthrough [of "TrustedScoreProvider_init MockScoreRepository None" "JInt 7"]
    get_score_fail_closed_passthrough
      [of "(TrustedScoreProvider_init (fixed_repo (Some 42)) None)\<lparr>provider_type := ''direct''\<rparr>" "JStr ''u''"]
    get_score_fail_closed_passthrough
      [of "(TrustedScoreProvider_init (fixed_repo (Some 42)) None)\<lparr>provider_type := ''redis''\<rparr>" "JStr ''u''"]
  by (simp add: TrustedScoreProvider_init_def fixed_repo_def MockScoreRepository_def backend_values_def)

section \<open>Required claims of the validator\<close>

text \<open>
  C7 as stated fails: the validator tests that the keys \<open>sub\<close> and \<open>jti\<close> are present, not
  that their values are non-empty. A verified, unexpired payload whose \<open>sub\<close> is the empty
  string is returned as it is.
\<close>

theorem validator_accepts_empty_sub_counterexample:
  "jwt_validate_token demo_decode (JWTValidator_init default_settings ''k'') ''empty_sub'' 1000 =
     Inr [(''sub'', JStr []), (''jti'', JStr ''j4''), (''exp'', JInt 2000)] \<and>
   dict_get [(''sub'', JStr []), (''jti'', JStr ''j4''), (''exp'', JInt 2000)] ''sub'' = JStr [] \<and>
   jwt_validate_token demo_decode (JWTValidator_init default_settings ''k'') ''empty_sub'' 1000 \<noteq>
     Inr (error_dict ''malformed'')"
  by (simp add: jwt_validate_token_def demo_decode_def JWTValidator_init_def default_settings_def
      check_exp_def check_nbf_def check_required_def dict_get_def dict_has_def error_dict_def)

text \<open>
  C7, amended. For a non-empty token whose signature verifies: a result that is not an
  error dict is the decoded payload and contains both keys \<open>sub\<close> and \<open>jti\<close>; and when
  the temporal checks pass (integer \<open>exp\<close> not past the drift, \<open>nbf\<close> absent or an integer
  already reached within the drift) and one of the two keys is absent, the result is the
  malformed error.
\<close>

theorem validator_requires_sub_and_jti_keys:
  assumes "tok \<noteq> []" and "dec tok (public_key v) (algorithm v) = Inr payload"
  shows "(\<forall>d. jwt_validate_token dec v tok now = Inr d \<and> \<not> dict_has d ''error'' \<longrightarrow>
            d = payload \<and> dict_has d ''sub'' \<and> dict_has d ''jti'') \<and>
         (\<forall>e. dict_get payload ''exp'' = JInt e \<and> now \<le> e + clock_drift v \<and>
              (dict_get payload ''nbf'' = JNull \<or>
               (\<exists>n. dict_get payload ''nbf'' = JInt n \<and> n - clock_drift v \<le> now)) \<and>
              (\<not> dict_has payload ''sub'' \<or> \<not> dict_has payload ''jti'') \<longrightarrow>
            jwt_validate_token dec v tok now = Inr (error_dict ''malformed''))"
proof -
  have v: "jwt_validate_token dec v tok now = check_exp v now payload"
    using assms by (simp add: jwt_validate_token_def)
  have a: "d = payload \<and> dict_has d ''sub'' \<and> dict_has d ''jti''"
    if "check_exp v now payload = Inr d" and "\<not> dict_has d ''error''" for d
    using check_required_success [OF check_nbf_success [OF check_exp_success [OF that] that(2)] that(2)]
    by simp
  have b: "check_exp v now payload = Inr (error_dict ''malformed'')"
    if "dict_get payload ''exp'' = JInt e" and "now \<le> e + clock_drift v"
      and "dict_get payload ''nbf'' = JNull \<or>
           (\<exists>n. dict_get payload ''nbf'' = JInt n \<and> n - clock_drift v \<le> now)"
      and "\<not> dict_has payload ''sub'' \<or> \<not> dict_has payload ''jti''" for e
  proof -
    have "check_exp v now payload = check_nbf v now payload"
      using that(1,2) by (simp add: check_exp_def)
    also have "\<dots> = check_required payload"
      using that(3) by (auto simp: check_nbf_def)
    also have "\<dots> = Inr (error_dict ''malformed'')"
      using that(4) by (auto simp: check_required_def)
    finally show ?thesis .
  qed
  show ?thesis unfolding v using a b by blast
qed

theorem validator_requires_sub_and_jti_keys_witness:
  "jwt_validate_token demo_decode (JWTValidator_init default_settings ''k'') ''no_jti'' 1000 =
     Inr (error_dict ''malformed'') \<and>
   jwt_validate_token demo_decode (JWTValidator_init default_settings ''k'') ''high'' 1000 =
     Inr [(''sub'', JStr ''high_user''), (''jti'', JStr ''j1''), (''exp'', JInt 2000)] \<and>
   dict_has [(''sub'', JStr ''high_user''), (''jti'', JStr ''j1''), (''exp'', JInt 2000)] ''sub'' \<and>
   dict_has [(''sub'', JStr ''high_user''), (''jti'', JStr ''j1''), (''exp'', JInt 2000)] ''jti''"
proof -
  have h: "jwt_validate_token demo_decode (JWTValidator_init default_settings ''k'') ''high'' 1000 =
     Inr [(''sub'', JStr ''high_user''), (''jti'', JStr ''j1''), (''exp'', JInt 2000)]"
    by (simp add: jwt_validate_token_def demo_decode_def JWTValidator_init_def default_settings_def
        check_exp_def check_nbf_def check_required_def dict_get_def dict_has_def)
  have ne: "\<not> dict_has [(''sub'', JStr ''high_user''), (''jti'', JStr ''j1''), (''exp'', JInt 2000)] ''error''"
    by (simp add: dict_has_def)
  from validator_requires_sub_and_jti_keys [of "''high''" demo_decode
      "JWTValidator_init default_settings ''k''"
      "[(''sub'', JStr ''high_user''), (''jti'', JStr ''j1''), (''exp'', JInt 2000)]" 1000] h ne
  have k: "dict_has [(''sub'', JStr ''high_user''), (''jti'', JStr ''j1''), (''exp'', JInt 2000)] ''sub'' \<and>
        dict_has [(''sub'', JStr ''high_user''), (''jti'', JStr ''j1''), (''exp'', JInt 2000)] ''jti''"
    by (simp add: demo_decode_def)
  from validator_requires_sub_and_jti_keys [of "''no_jti''" demo_decode
      "JWTValidator_init default_settings ''k''"
      "[(''sub'', JStr ''high_user''), (''exp'', JInt 2000)]" 1000]
  have "jwt_validate_token demo_decode (JWTValidator_init default_settings ''k'') ''no_jti'' 1000 =
     Inr (error_dict ''malformed'')"
    by (simp add: demo_decode_def JWTValidator_init_def default_settings_def dict_get_def dict_has_def)
  with h k show ?thesis by blast
qed

section \<open>The token bucket\<close>

text \<open>
  C8 as stated fails: the limiter reads the wall clock and stores it as it is. When a
  later call reads an earlier time (here 1000, then 0), \<open>elapsed\<close> is negative, the stored
  \<open>tokens\<close> falls below 0 and \<open>last_update\<close> decreases.
\<close>

theorem bucket_clock_regression_counterexample:
  "state (admit_all [1000] (RateLimiter_init 100)) ''global'' = Some (119, 1000) \<and>
   state (admit_all [1000, 0] (RateLimiter_init 100)) ''global'' = Some (- 4643 / 3, 0) \<and>
   (- 4643 / 3 :: real) < 0 \<and> (0 :: real) < 1000"
  by (simp add: is_allowed_def RateLimiter_init_def Let_def)

lemma is_allowed_params [simp]:
  "max_tokens (snd (is_allowed now rl)) = max_tokens rl"
  "refill_rate (snd (is_allowed now rl)) = refill_rate rl"
  by (simp_all add: is_allowed_def Let_def split: option.splits prod.splits)

lemma is_allowed_other_key:
  "k \<noteq> ''global'' \<Longrightarrow> state (snd (is_allowed now rl)) k = state rl k"
  by (simp add: is_allowed_def Let_def split: option.splits prod.splits)

lemma is_allowed_last_update:
  "\<exists>tokens. state (snd (is_allowed now rl)) ''global'' = Some (tokens, now)"
  by (simp add: is_allowed_def Let_def split: option.splits prod.splits)

lemma is_allowed_inv:
  assumes "bucket_inv rl lo" and "lo \<le> now"
  shows "bucket_inv (snd (is_allowed now rl)) now"
proof (cases "state rl ''global''")
  case None
  have old: "0 \<le> t \<and> t \<le> max_tokens rl \<and> l \<le> now"
    if "state rl k = Some (t, l)" for k t l
    using that assms by (force simp: bucket_inv_def)
  from assms have "0 \<le> refill_rate rl" "1 \<le> max_tokens rl"
    by (auto simp: bucket_inv_def)
  moreover from None have "snd (is_allowed now rl) =
      rl\<lparr>state := (state rl)(''global'' \<mapsto> (max_tokens rl - 1, now))\<rparr>"
    by (simp add: is_allowed_def)
  ultimately show ?thesis using old by (auto simp: bucket_inv_def)
next
  case (Some b)
  obtain tokens0 last_update where b: "b = (tokens0, last_update)" by (cases b)
  from assms Some b have t0: "0 \<le> tokens0" "tokens0 \<le> max_tokens rl" "last_update \<le> lo"
    by (auto simp: bucket_inv_def)
  from assms have r: "0 \<le> refill_rate rl" "1 \<le> max_tokens rl"
    by (auto simp: bucket_inv_def)
  have el: "0 \<le> (now - last_update) * refill_rate rl"
    using t0(3) assms(2) r(1) by simp
  define tokens where "tokens = min (max_tokens rl) (tokens0 + (now - last_update) * refill_rate rl)"
  have tk: "0 \<le> tokens" "tokens \<le> max_tokens rl"
    using t0 el r by (auto simp: tokens_def)
  have others: "0 \<le> t \<and> t \<le> max_tokens rl \<and> l \<le> now"
    if "state rl k = Some (t, l)" for k t l
    using that assms by (force simp: bucket_inv_def)
  show ?thesis
  proof (cases "tokens < 1")
    case True
    with Some b have "snd (is_allowed now rl) = rl\<lparr>state := (state rl)(''global'' \<mapsto> (tokens, now))\<rparr>"
      by (simp add: is_allowed_def tokens_def Let_def)
    with tk r others show ?thesis by (auto simp: bucket_inv_def)
  next
    case False
    with Some b have "snd (is_allowed now rl) = rl\<lparr>state := (state rl)(''global'' \<mapsto> (tokens - 1, now))\<rparr>"
      by (simp add: is_allowed_def tokens_def Let_def)
    with tk r others False show ?thesis by (auto simp: bucket_inv_def)
  qed
qed

lemma admit_all_inv:
  "bucket_inv rl lo \<Longrightarrow> sorted (lo # ts) \<Longrightarrow> bucket_inv (admit_all ts rl) (last (lo # ts))"
proof (induction ts arbitrary: rl lo)
  case Nil
  then show ?case by simp
next
  case (Cons t ts)
  from Cons.prems have "bucket_inv (snd (is_allowed t rl)) t"
    by (auto intro: is_allowed_inv)
  moreover from Cons.prems have "sorted (t # ts)" by simp
  ultimately have "bucket_inv (admit_all ts (snd (is_allowed t rl))) (last (t # ts))"
    by (rule Cons.IH)
  then show ?case by simp
qed

lemma admit_all_params [simp]:
  "max_tokens (admit_all ts rl) = max_tokens rl"
  by (induction ts arbitrary: rl) simp_all

lemma admit_all_other_key:
  "k \<noteq> ''global'' \<Longrightarrow> state (admit_all ts rl) k = state rl k"
  by (induction ts arbitrary: rl) (simp_all add: is_allowed_other_key)

lemma admit_all_last_update:
  "ts \<noteq> [] \<Longrightarrow> \<exists>tokens. state (admit_all ts rl) ''global'' = Some (tokens, last ts)"
proof (induction ts arbitrary: rl)
  case Nil
  then show ?case by simp
next
  case (Cons t ts)
  show ?case
  proof (cases "ts = []")
    case True
    then show ?thesis using is_allowed_last_update [of t rl] by simp
  next
    case False
    from Cons.IH [OF False, of "snd (is_allowed t rl)"] False show ?thesis by simp
  qed
qed

lemma admit_all_append: "admit_all (xs @ ys) rl = admit_all ys (admit_all xs rl)"
  by (induction xs arbitrary: rl) simp_all

lemma bucket_inv_init:
  "0 \<le> rpm \<Longrightarrow> bucket_inv (RateLimiter_init rpm) lo"
  by (simp add: bucket_inv_def RateLimiter_init_def)

text \<open>
  C8, amended. With a refill rate that is not negative and clock readings that do not
  decrease from one call to the next, after any sequence of calls on a fresh limiter
  every stored bucket has \<open>tokens\<close> between 0 and the capacity, and the \<open>last_update\<close>
  of a key after a longer run is not before its \<open>last_update\<close> after any prefix of
  that run.
\<close>

theorem bucket_invariant_monotone_clock:
  assumes "0 \<le> rpm" and "sorted ts"
  shows "(\<forall>k tokens last_update.
            state (admit_all ts (RateLimiter_init rpm)) k = Some (tokens, last_update) \<longrightarrow>
            0 \<le> tokens \<and> tokens \<le> max_tokens (RateLimiter_init rpm)) \<and>
         (\<forall>ts1 ts2 k tokens1 last_update1 tokens2 last_update2.
            ts = ts1 @ ts2 \<and>
            state (admit_all ts1 (RateLimiter_init rpm)) k = Some (tokens1, last_update1) \<and>
            state (admit_all ts (RateLimiter_init rpm)) k = Some (tokens2, last_update2) \<longrightarrow>
            last_update1 \<le> last_update2)"
proof -
  have bounds: "0 \<le> tokens \<and> tokens \<le> max_tokens (RateLimiter_init rpm)"
    if st: "state (admit_all ts (RateLimiter_init rpm)) k = Some (tokens, last_update)"
    for k tokens last_update
  proof -
    define lo where "lo = (case ts of [] \<Rightarrow> 0 | t # rest \<Rightarrow> t)"
    have "sorted (lo # ts)"
      using assms(2) by (cases ts) (auto simp: lo_def)
    from admit_all_inv [OF bucket_inv_init [OF assms(1)] this]
    have "bucket_inv (admit_all ts (RateLimiter_init rpm)) (last (lo # ts))" .
    with st show ?thesis by (auto simp: bucket_inv_def)
  qed
  have mono: "last_update1 \<le> last_update2"
    if h: "ts = ts1 @ ts2"
      "state (admit_all ts1 (RateLimiter_init rpm)) k = Some (tokens1, last_update1)"
      "state (admit_all ts (RateLimiter_init rpm)) k = Some (tokens2, last_update2)"
    for ts1 ts2 k tokens1 last_update1 tokens2 last_update2
  proof -
    have init: "state (RateLimiter_init rpm) k = None"
      by (simp add: RateLimiter_init_def)
    have k: "k = ''global''"
    proof (rule ccontr)
      assume "k \<noteq> ''global''"
      from admit_all_other_key [OF this, of ts1 "RateLimiter_init rpm"] h init show False by simp
    qed
    have ne1: "ts1 \<noteq> []"
      using h init by auto
    from admit_all_last_update [OF ne1, of "RateLimiter_init rpm"] h k
    have l1: "last_update1 = last ts1" by auto
    show ?thesis
    proof (cases "ts2 = []")
      case True
      with h show ?thesis by simp
    next
      case False
      from admit_all_last_update [OF False, of "admit_all ts1 (RateLimiter_init rpm)"] h k
      have l2: "last_update2 = last ts2" by (auto simp: admit_all_append)
      from assms(2) h have "\<forall>x \<in> set ts1. \<forall>y \<in> set ts2. x \<le> y"
        by (simp add: sorted_append)
      with ne1 False l1 l2 show ?thesis by simp
    qed
  qed
  from bounds mono show ?thesis by blast
qed

theorem bucket_invariant_monotone_clock_witness:
  "sorted [0, 3 / 10, 60 :: real] \<and>
   state (admit_all [0, 3 / 10] (RateLimiter_init 100)) ''global'' = Some (237 / 2, 3 / 10) \<and>
   state (admit_all [0, 3 / 10, 60] (RateLimiter_init 100)) ''global'' = Some (119, 60) \<and>
   (0 :: real) \<le> 119 \<and> 119 \<le> max_tokens (RateLimiter_init 100) \<and> (3 / 10 :: real) \<le> 60"
proof -
  have s: "sorted [0, 3 / 10, 60 :: real]" by simp
  have a: "state (admit_all [0, 3 / 10] (RateLimiter_init 100)) ''global'' = Some (237 / 2, 3 / 10)"
    by (simp add: is_allowed_def RateLimiter_init_def Let_def)
  have b: "state (admit_all [0, 3 / 10, 60] (RateLimiter_init 100)) ''global'' = Some (119, 60)"
    by (simp add: is_allowed_def RateLimiter_init_def Let_def)
  have c: "[0, 3 / 10, 60 :: real] = [0, 3 / 10] @ [60]" by simp
  have r: "(0 :: int) \<le> 100" by simp
  from bucket_invariant_monotone_clock [OF r s] a b c
  have "(0 :: real) \<le> 119 \<and> 119 \<le> max_tokens (RateLimiter_init 100)" and "(3 / 10 :: real) \<le> 60"
    by blast+
  with s a b show ?thesis by blast
qed

section \<open>The replay cache across requests\<close>

lemma replay_stage_cache:
  assumes "jti_timestamps (replay_cache app) = Map.empty"
  shows "replay_cache (snd (replay_stage ext req decoded app)) =
     (replay_cache app)\<lparr>seen := seen (replay_cache app) \<union>
        (case fst (is_replayed (dict_get decoded ''jti'') (t_replay req) (replay_cache app)) of
           Inr False \<Rightarrow> (case py_key (dict_get decoded ''jti'') of Inl e \<Rightarrow> {} | Inr k \<Rightarrow> {k})
         | other \<Rightarrow> {})\<rparr>"
proof (cases "truthy (dict_get decoded ''jti'')")
  case False
  with assms show ?thesis
    by (simp add: replay_stage_no_timestamps is_replayed_no_timestamps)
next
  case True
  show ?thesis
  proof (cases "py_key (dict_get decoded ''jti'')")
    case (Inl e)
    with True assms show ?thesis
      by (simp add: replay_stage_no_timestamps is_replayed_no_timestamps)
  next
    case (Inr k)
    with True assms show ?thesis
      by (simp add: replay_stage_no_timestamps is_replayed_no_timestamps)
  qed
qed

lemma jwt_stage_cache:
  assumes "jti_timestamps (replay_cache app) = Map.empty"
  shows "replay_cache (snd (jwt_stage ext req app)) =
     (replay_cache app)\<lparr>seen := seen (replay_cache app) \<union>
        (case jwt_validate_token (jwt_decode ext) (jwt_validator app) (token req) (t_jwt req) of
           Inl e \<Rightarrow> {}
         | Inr decoded \<Rightarrow>
             if dict_has decoded ''error'' then {}
             else (case fst (is_replayed (dict_get decoded ''jti'') (t_replay req) (replay_cache app)) of
                     Inr False \<Rightarrow> (case py_key (dict_get decoded ''jti'') of Inl e \<Rightarrow> {} | Inr k \<Rightarrow> {k})
                   | other \<Rightarrow> {}))\<rparr>"
proof (cases "jwt_validate_token (jwt_decode ext) (jwt_validator app) (token req) (t_jwt req)")
  case (Inl e)
  then show ?thesis by (simp add: jwt_stage_def)
next
  case (Inr decoded)
  show ?thesis
  proof (cases "dict_has decoded ''error''")
    case True
    with Inr show ?thesis
      by (cases "reason_map_get (dict_get decoded ''error'')") (simp_all add: jwt_stage_def)
  next
    case False
    with Inr show ?thesis
      by (simp add: jwt_stage_def replay_stage_cache [OF assms])
  qed
qed

lemma admitted_set_eq:
  "(case admitted ext req app of None \<Rightarrow> {} | Some k \<Rightarrow> {k}) =
     (if fst (is_allowed (t_rate req) (rate_limiter app))
      then case jwt_validate_token (jwt_decode ext) (jwt_validator app) (token req) (t_jwt req) of
           Inl e \<Rightarrow> {}
         | Inr decoded \<Rightarrow>
             if dict_has decoded ''error'' then {}
             else (case fst (is_replayed (dict_get decoded ''jti'') (t_replay req) (replay_cache app)) of
                     Inr False \<Rightarrow> (case py_key (dict_get decoded ''jti'') of Inl e \<Rightarrow> {} | Inr k \<Rightarrow> {k})
                   | other \<Rightarrow> {})
      else {})"
  by (simp add: admitted_def split: sum.splits bool.splits)

lemma validate_token_cache:
  assumes "jti_timestamps (replay_cache app) = Map.empty"
  shows "replay_cache (snd (validate_token ext req app)) =
     (replay_cache app)\<lparr>seen := seen (replay_cache app) \<union>
        (case admitted ext req app of None \<Rightarrow> {} | Some k \<Rightarrow> {k})\<rparr>"
proof -
  obtain allowed rl where ia: "is_allowed (t_rate req) (rate_limiter app) = (allowed, rl)"
    by (cases "is_allowed (t_rate req) (rate_limiter app)")
  have vt: "replay_cache (snd (validate_token ext req app)) =
            replay_cache (snd (validate_body ext req (inc_total app)))"
    by (cases "validate_body ext req (inc_total app)" rule: prod.exhaust)
       (auto simp: validate_token_def split: sum.splits)
  show ?thesis
  proof (cases allowed)
    case False
    with ia show ?thesis
      unfolding vt admitted_set_eq by (simp add: validate_body_def)
  next
    case True
    have nt: "jti_timestamps (replay_cache ((inc_total app)\<lparr>rate_limiter := rl\<rparr>)) = Map.empty"
      using assms by simp
    have rc: "replay_cache ((inc_total app)\<lparr>rate_limiter := rl\<rparr>) = replay_cache app"
      and jv: "jwt_validator ((inc_total app)\<lparr>rate_limiter := rl\<rparr>) = jwt_validator app"
      by simp_all
    note c = jwt_stage_cache [OF nt, of ext req, unfolded rc jv]
    from True ia show ?thesis
      unfolding vt admitted_set_eq
      by (simp add: validate_body_def c)
  qed
qed

lemma validate_token_no_timestamps:
  "jti_timestamps (replay_cache app) = Map.empty \<Longrightarrow>
     jti_timestamps (replay_cache (snd (validate_token ext req app))) = Map.empty"
  by (simp add: validate_token_cache)

lemma serve_no_timestamps:
  "jti_timestamps (replay_cache app) = Map.empty \<Longrightarrow>
     jti_timestamps (replay_cache (serve ext reqs app)) = Map.empty"
  by (induction reqs arbitrary: app) (simp_all add: validate_token_no_timestamps)

lemma serve_seen:
  "jti_timestamps (replay_cache app) = Map.empty \<Longrightarrow>
     seen (replay_cache (serve ext reqs app)) = seen (replay_cache app) \<union> admitted_all ext reqs app"
proof (induction reqs arbitrary: app)
  case Nil
  then show ?case by simp
next
  case (Cons req reqs)
  from Cons.IH [OF validate_token_no_timestamps [OF Cons.prems], of ext req]
  show ?case
    by (auto simp: validate_token_cache [OF Cons.prems])
qed

lemma admitted_all_append:
  "admitted_all ext (xs @ ys) app = admitted_all ext xs app \<union> admitted_all ext ys (serve ext xs app)"
  by (induction xs arbitrary: app) auto

lemma lifespan_fresh [simp]:
  "jti_timestamps (replay_cache (lifespan s key repo)) = Map.empty"
  "seen (replay_cache (lifespan s key repo)) = {}"
  by (simp_all add: lifespan_def ReplayCache_init_def)

lemma validate_token_replayed:
  assumes nt: "jti_timestamps (replay_cache app) = Map.empty"
    and reach: "reaches_replay_check ext req app jti"
    and key: "py_key jti = Inr k" and seen: "k \<in> seen (replay_cache app)"
  shows "fst (validate_token ext req app) = respond req DENY (Some REPLAY_DETECTED) None"
proof -
  obtain allowed rl where ia: "is_allowed (t_rate req) (rate_limiter app) = (allowed, rl)"
    by (cases "is_allowed (t_rate req) (rate_limiter app)")
  from reach ia have allowed: allowed
    by (simp add: reaches_replay_check_def)
  from reach obtain decoded where
    dec: "jwt_validate_token (jwt_decode ext) (jwt_validator app) (token req) (t_jwt req) = Inr decoded"
    and ne: "\<not> dict_has decoded ''error''" and j: "dict_get decoded ''jti'' = jti"
    by (auto simp: reaches_replay_check_def split: sum.splits)
  have nt': "jti_timestamps (replay_cache ((inc_total app)\<lparr>rate_limiter := rl\<rparr>)) = Map.empty"
    using nt by simp
  have "fst (replay_stage ext req decoded ((inc_total app)\<lparr>rate_limiter := rl\<rparr>)) =
          Inr (respond req DENY (Some REPLAY_DETECTED) None)"
    using key seen j by (simp add: replay_stage_no_timestamps [OF nt'] Let_def)
  with dec ne have "fst (jwt_stage ext req ((inc_total app)\<lparr>rate_limiter := rl\<rparr>)) =
          Inr (respond req DENY (Some REPLAY_DETECTED) None)"
    by (simp add: jwt_stage_def)
  with ia allowed have "fst (validate_body ext req (inc_total app)) =
          Inr (respond req DENY (Some REPLAY_DETECTED) None)"
    by (simp add: validate_body_def)
  then show ?thesis
    by (cases "validate_body ext req (inc_total app)" rule: prod.exhaust)
       (simp add: validate_token_def)
qed

text \<open>What one request leaves unchanged.\<close>

lemma replay_stage_rate_limiter:
  "rate_limiter (snd (replay_stage ext req decoded app)) = rate_limiter app"
  using replay_stage_cases [of ext req decoded app] by auto

lemma jwt_stage_rate_limiter:
  "rate_limiter (snd (jwt_stage ext req app)) = rate_limiter app"
proof (cases "jwt_validate_token (jwt_decode ext) (jwt_validator app) (token req) (t_jwt req)")
  case (Inl e)
  then show ?thesis by (simp add: jwt_stage_def)
next
  case (Inr decoded)
  show ?thesis
  proof (cases "dict_has decoded ''error''")
    case True
    with Inr show ?thesis
      by (cases "reason_map_get (dict_get decoded ''error'')") (simp_all add: jwt_stage_def)
  next
    case False
    with Inr show ?thesis by (simp add: jwt_stage_def replay_stage_rate_limiter)
  qed
qed

lemma validate_token_rate_limiter:
  "rate_limiter (snd (validate_token ext req app)) = snd (is_allowed (t_rate req) (rate_limiter app))"
proof -
  obtain allowed rl where ia: "is_allowed (t_rate req) (rate_limiter app) = (allowed, rl)"
    by (cases "is_allowed (t_rate req) (rate_limiter app)")
  have vt: "rate_limiter (snd (validate_token ext req app)) =
            rate_limiter (snd (validate_body ext req (inc_total app)))"
    by (cases "validate_body ext req (inc_total app)" rule: prod.exhaust)
       (auto simp: validate_token_def split: sum.splits)
  from ia show ?thesis
    unfolding vt by (cases allowed) (simp_all add: validate_body_def jwt_stage_rate_limiter)
qed

lemma validate_token_frame:
  "jwt_validator (snd (validate_token ext req app)) = jwt_validator app"
  "score_provider (snd (validate_token ext req app)) = score_provider app"
  "settings (snd (validate_token ext req app)) = settings app"
  "rate_limit_hits (metrics (snd (validate_token ext req app))) = rate_limit_hits (metrics app)"
  "replay_detections (metrics (snd (validate_token ext req app))) = replay_detections (metrics app)"
proof -
  have ok: "stage_ok req app (validate_body ext req (inc_total app))"
    by (rule stage_ok_inc_total [OF validate_body_ok])
  obtain r app1 where vb: "validate_body ext req (inc_total app) = (r, app1)"
    by (cases "validate_body ext req (inc_total app)")
  from ok vb show "jwt_validator (snd (validate_token ext req app)) = jwt_validator app"
    "score_provider (snd (validate_token ext req app)) = score_provider app"
    "settings (snd (validate_token ext req app)) = settings app"
    "rate_limit_hits (metrics (snd (validate_token ext req app))) = rate_limit_hits (metrics app)"
    "replay_detections (metrics (snd (validate_token ext req app))) = replay_detections (metrics app)"
    by (cases r; simp add: validate_token_def stage_ok_def)+
qed

lemma serve_rate_limiter:
  "rate_limiter (serve ext reqs app) = admit_all (map t_rate reqs) (rate_limiter app)"
  by (induction reqs arbitrary: app) (simp_all add: validate_token_rate_limiter)

text \<open>Evaluation of the concrete runs used below.\<close>

lemmas replay_eval =
  admitted_def reaches_replay_check_def is_allowed_def demo_app_def lifespan_def
  RateLimiter_init_def demo_req_def jwt_validate_token_def demo_ext_def demo_decode_def
  JWTValidator_init_def default_settings_def check_exp_def check_nbf_def check_required_def
  dict_get_def dict_has_def ReplayCache_init_def is_replayed_def cleanup_expired_def
  is_expired_def Let_def

lemma demo_high_admitted:
  "admitted demo_ext (demo_req ''high'' 1000) demo_app = Some (JStr ''j1'')"
  by (simp add: replay_eval)

lemma demo_high_response:
  "fst (validate_token demo_ext (demo_req ''high'' 1000) demo_app) =
     respond (demo_req ''high'' 1000) ALLOW None (Some 95)"
  by (simp add: demo_eval)

lemma demo_high_reaches_again:
  "reaches_replay_check demo_ext (demo_req ''high'' 1001)
     (serve demo_ext [demo_req ''high'' 1000] demo_app) (JStr ''j1'')"
  by (simp add: reaches_replay_check_def validate_token_rate_limiter validate_token_frame)
     (simp add: replay_eval)

lemmas tiny_eval = demo_eval [unfolded demo_app_def] tiny_cache_app_def

lemma tiny_high_admitted:
  "admitted demo_ext (demo_req ''high'' 1000) (serve demo_ext [] tiny_cache_app) = Some (JStr ''j1'')"
  by (simp add: replay_eval tiny_cache_app_def)

lemma tiny_seen:
  "seen (replay_cache (serve demo_ext [demo_req ''high'' 1000, demo_req ''empty_sub'' 1500] tiny_cache_app)) =
     {JStr ''j1'', JStr ''j4''}"
  by (simp add: tiny_eval insert_commute)

lemma tiny_reaches:
  "reaches_replay_check demo_ext (demo_req ''high'' 2010)
     (serve demo_ext [demo_req ''high'' 1000, demo_req ''empty_sub'' 1500] tiny_cache_app) (JStr ''j1'')"
  by (simp add: reaches_replay_check_def validate_token_rate_limiter validate_token_frame)
     (simp add: replay_eval tiny_cache_app_def)

text \<open>
  The bucket of \<open>last_token_app\<close> is the one a fresh process holds after 119 calls
  at the instant 1000.
\<close>

lemma admit_all_same_instant:
  "n < 120 \<Longrightarrow>
     admit_all (replicate (Suc n) t) (RateLimiter_init rpm) =
       \<lparr>max_tokens = 120, refill_rate = real_of_int rpm / 60,
        state = [''global'' \<mapsto> (119 - real n, t)]\<rparr>"
proof (induction n)
  case 0
  then show ?case by (simp add: is_allowed_def RateLimiter_init_def fun_upd_def)
next
  case (Suc n)
  have ih: "admit_all (replicate (Suc n) t) (RateLimiter_init rpm) =
       \<lparr>max_tokens = 120, refill_rate = real_of_int rpm / 60,
        state = [''global'' \<mapsto> (119 - real n, t)]\<rparr>"
    using Suc.prems by (intro Suc.IH) simp
  have "replicate (Suc (Suc n)) t = replicate (Suc n) t @ [t]"
    using replicate_append_same [of "Suc n" t] by simp
  then have "admit_all (replicate (Suc (Suc n)) t) (RateLimiter_init rpm) =
             snd (is_allowed t (admit_all (replicate (Suc n) t) (RateLimiter_init rpm)))"
    by (simp only: admit_all_append admit_all.simps)
  also have "\<dots> = \<lparr>max_tokens = 120, refill_rate = real_of_int rpm / 60,
        state = [''global'' \<mapsto> (119 - real (Suc n), t)]\<rparr>"
    using Suc.prems unfolding ih by (simp add: is_allowed_def Let_def)
  finally show ?case .
qed

lemma last_token_app_reachable:
  "rate_limiter (serve demo_ext (replicate 119 (demo_req ''garbage'' 1000)) demo_app) =
     rate_limiter last_token_app"
proof -
  have "admit_all (replicate (Suc 118) 1000) (RateLimiter_init 100) =
       \<lparr>max_tokens = 120, refill_rate = real_of_int 100 / 60,
        state = [''global'' \<mapsto> (119 - real 118, 1000)]\<rparr>"
    by (rule admit_all_same_instant) simp
  then show ?thesis
    by (simp add: serve_rate_limiter last_token_app_def demo_app_def lifespan_def demo_req_def
        RateLimiter_init_def default_settings_def)
qed

section \<open>Replays\<close>

text \<open>
  C4 as stated fails: the replay check is the third step, so a later request with a
  recorded \<open>jti\<close> is answered by an earlier step when that step refuses it. The token
  \<open>high\<close> is admitted at 1000 (ALLOW, score 95) and its \<open>jti\<close> is in \<open>seen\<close>; presented
  again at 2031, past \<open>exp + clock_drift\<close>, the answer is DENY with EXPIRED\_TOKEN, and
  the \<open>jti\<close> is still in \<open>seen\<close> afterwards; presented again within the same instant to
  a process whose bucket held one token, the answer is DENY with RATE\_LIMIT\_EXCEEDED.
\<close>

theorem replayed_jti_other_reason_counterexample:
  "admitted demo_ext (demo_req ''high'' 1000) demo_app = Some (JStr ''j1'') \<and>
   fst (validate_token demo_ext (demo_req ''high'' 1000) demo_app) =
     respond (demo_req ''high'' 1000) ALLOW None (Some 95) \<and>
   JStr ''j1'' \<in> seen (replay_cache (serve demo_ext [demo_req ''high'' 1000] demo_app)) \<and>
   fst (validate_token demo_ext (demo_req ''high'' 2031)
         (serve demo_ext [demo_req ''high'' 1000] demo_app)) =
     respond (demo_req ''high'' 2031) DENY (Some EXPIRED_TOKEN) None \<and>
   JStr ''j1'' \<in> seen (replay_cache
     (serve demo_ext [demo_req ''high'' 1000, demo_req ''high'' 2031] demo_app)) \<and>
   admitted demo_ext (demo_req ''high'' 1000) last_token_app = Some (JStr ''j1'') \<and>
   fst (validate_token demo_ext (demo_req ''high'' 1000)
         (serve demo_ext [demo_req ''high'' 1000] last_token_app)) =
     respond (demo_req ''high'' 1000) DENY (Some RATE_LIMIT_EXCEEDED) None"
  by (simp add: demo_high_admitted demo_high_response) (simp add: demo_eval admitted_def last_token_app_def)

text \<open>
  C4, amended. In a process started by \<open>lifespan\<close>, after any requests, \<open>seen\<close> is exactly
  the set of identifiers admitted past the replay check so far; and once an identifier
  has been admitted, every later request that reaches the replay check with it (the
  rate limiter allows the request and the validator returns a payload carrying that
  \<open>jti\<close>) is answered DENY with REPLAY\_DETECTED.
\<close>

theorem replay_denied_when_checked:
  "seen (replay_cache (serve ext reqs (lifespan s key repo))) =
     admitted_all ext reqs (lifespan s key repo) \<and>
   (\<forall>reqs1 reqs2 k req jti.
      reqs = reqs1 @ reqs2 \<and> k \<in> admitted_all ext reqs1 (lifespan s key repo) \<and>
      reaches_replay_check ext req (serve ext reqs (lifespan s key repo)) jti \<and>
      py_key jti = Inr k \<longrightarrow>
      fst (validate_token ext req (serve ext reqs (lifespan s key repo))) =
        respond req DENY (Some REPLAY_DETECTED) None)"
proof -
  have sn: "seen (replay_cache (serve ext reqs (lifespan s key repo))) =
              admitted_all ext reqs (lifespan s key repo)"
    by (simp add: serve_seen)
  have nt: "jti_timestamps (replay_cache (serve ext reqs (lifespan s key repo))) = Map.empty"
    by (simp add: serve_no_timestamps)
  have "fst (validate_token ext req (serve ext reqs (lifespan s key repo))) =
          respond req DENY (Some REPLAY_DETECTED) None"
    if "reqs = reqs1 @ reqs2" and "k \<in> admitted_all ext reqs1 (lifespan s key repo)"
      and "reaches_replay_check ext req (serve ext reqs (lifespan s key repo)) jti"
      and "py_key jti = Inr k" for reqs1 reqs2 k req jti
  proof -
    from that(1,2) have "k \<in> admitted_all ext reqs (lifespan s key repo)"
      by (simp add: admitted_all_append)
    with sn have "k \<in> seen (replay_cache (serve ext reqs (lifespan s key repo)))" by simp
    from validate_token_replayed [OF nt that(3,4) this] show ?thesis .
  qed
  with sn show ?thesis by blast
qed

theorem replay_denied_when_checked_witness:
  "seen (replay_cache (serve demo_ext [demo_req ''high'' 1000] demo_app)) = {JStr ''j1''} \<and>
   reaches_replay_check demo_ext (demo_req ''high'' 1001)
     (serve demo_ext [demo_req ''high'' 1000] demo_app) (JStr ''j1'') \<and>
   fst (validate_token demo_ext (demo_req ''high'' 1001)
         (serve demo_ext [demo_req ''high'' 1000] demo_app)) =
     respond (demo_req ''high'' 1001) DENY (Some REPLAY_DETECTED) None"
proof -
  have ad: "admitted_all demo_ext [demo_req ''high'' 1000] demo_app = {JStr ''j1''}"
    by (simp add: demo_high_admitted)
  have k: "py_key (JStr ''j1'') = Inr (JStr ''j1'')" by simp
  have ap: "[demo_req ''high'' 1000] = [demo_req ''high'' 1000] @ []" by simp
  note t = replay_denied_when_checked [of demo_ext "[demo_req ''high'' 1000]" default_settings
      "''public key''" MockScoreRepository, folded demo_app_def]
  from t ad have a: "seen (replay_cache (serve demo_ext [demo_req ''high'' 1000] demo_app)) = {JStr ''j1''}"
    by simp
  from t ad k ap demo_high_reaches_again
  have b: "fst (validate_token demo_ext (demo_req ''high'' 1001)
         (serve demo_ext [demo_req ''high'' 1000] demo_app)) =
     respond (demo_req ''high'' 1001) DENY (Some REPLAY_DETECTED) None"
    by blast
  from a b demo_high_reaches_again show ?thesis by blast
qed

text \<open>
  C10 as stated fails in its last part: the entry persists, but a later presentation is
  answered as a replay only when it gets to the replay check. With a maximum size of 1,
  the token \<open>high\<close> is admitted at 1000 and its \<open>jti\<close> is in \<open>seen\<close>; at 2031, past
  \<open>exp + clock_drift\<close>, \<open>is_replayed\<close> still answers \<open>True\<close> for it, yet the same token
  presented to the endpoint is answered DENY with EXPIRED\_TOKEN, not REPLAY\_DETECTED,
  and the \<open>jti\<close> is still in \<open>seen\<close> afterwards.
\<close>

theorem replay_entry_expired_presentation_counterexample:
  "admitted demo_ext (demo_req ''high'' 1000) (serve demo_ext [] tiny_cache_app) = Some (JStr ''j1'') \<and>
   JStr ''j1'' \<in> seen (replay_cache (serve demo_ext [demo_req ''high'' 1000] tiny_cache_app)) \<and>
   fst (is_replayed (JStr ''j1'') 2031
         (replay_cache (serve demo_ext [demo_req ''high'' 1000] tiny_cache_app))) = Inr True \<and>
   fst (validate_token demo_ext (demo_req ''high'' 2031)
         (serve demo_ext [demo_req ''high'' 1000] tiny_cache_app)) =
     respond (demo_req ''high'' 2031) DENY (Some EXPIRED_TOKEN) None \<and>
   reason (fst (validate_token demo_ext (demo_req ''high'' 2031)
         (serve demo_ext [demo_req ''high'' 1000] tiny_cache_app))) \<noteq> Some REPLAY_DETECTED \<and>
   JStr ''j1'' \<in> seen (replay_cache
     (serve demo_ext [demo_req ''high'' 1000, demo_req ''high'' 2031] tiny_cache_app))"
proof -
  have rest: "JStr ''j1'' \<in> seen (replay_cache (serve demo_ext [demo_req ''high'' 1000] tiny_cache_app)) \<and>
   fst (is_replayed (JStr ''j1'') 2031
         (replay_cache (serve demo_ext [demo_req ''high'' 1000] tiny_cache_app))) = Inr True \<and>
   fst (validate_token demo_ext (demo_req ''high'' 2031)
         (serve demo_ext [demo_req ''high'' 1000] tiny_cache_app)) =
     respond (demo_req ''high'' 2031) DENY (Some EXPIRED_TOKEN) None \<and>
   reason (fst (validate_token demo_ext (demo_req ''high'' 2031)
         (serve demo_ext [demo_req ''high'' 1000] tiny_cache_app))) \<noteq> Some REPLAY_DETECTED \<and>
   JStr ''j1'' \<in> seen (replay_cache
     (serve demo_ext [demo_req ''high'' 1000, demo_req ''high'' 2031] tiny_cache_app))"
    by (simp add: tiny_eval)
  with tiny_high_admitted show ?thesis by blast
qed

text \<open>
  C10, amended. The pipeline calls \<open>record\<close> without an expiration (\<open>record_jti jti None\<close>
  in \<open>replay_stage\<close>). So in a process started by \<open>lifespan\<close> with any settings, once a
  request has been admitted with key \<open>k\<close>, after any further requests: no expiration is
  stored at all, \<open>k\<close> is still in \<open>seen\<close>, a cleanup at any time keeps it (a cleanup
  of any cache keeps every entry that has no stored expiration), \<open>is_replayed\<close> answers
  \<open>True\<close> for it at any time, and every later request that reaches the replay check
  with it (the rate limiter allows the request and the validator returns a payload
  carrying that \<open>jti\<close>) is answered DENY with REPLAY\_DETECTED. In the witness the
  maximum size is 1, two identifiers are stored, the cache is asked at time 1000000, and
  the token is presented again at 2010, after its \<open>exp\<close> of 2000 and within the drift.
\<close>

theorem replay_entry_never_expires:
  assumes "admitted ext req (serve ext reqs1 (lifespan s key repo)) = Some k"
  shows "jti_timestamps (replay_cache (serve ext (reqs1 @ req # reqs2) (lifespan s key repo))) = Map.empty \<and>
         k \<in> seen (replay_cache (serve ext (reqs1 @ req # reqs2) (lifespan s key repo))) \<and>
         (\<forall>now. k \<in> seen (cleanup_expired now
                    (replay_cache (serve ext (reqs1 @ req # reqs2) (lifespan s key repo))))) \<and>
         (\<forall>jti now. py_key jti = Inr k \<longrightarrow>
            fst (is_replayed jti now
                  (replay_cache (serve ext (reqs1 @ req # reqs2) (lifespan s key repo)))) = Inr True) \<and>
         (\<forall>req' jti.
            reaches_replay_check ext req' (serve ext (reqs1 @ req # reqs2) (lifespan s key repo)) jti \<and>
            py_key jti = Inr k \<longrightarrow>
            fst (validate_token ext req' (serve ext (reqs1 @ req # reqs2) (lifespan s key repo))) =
              respond req' DENY (Some REPLAY_DETECTED) None) \<and>
         (\<forall>rc j now. j \<in> seen rc \<and> jti_timestamps rc j = None \<longrightarrow>
            j \<in> seen (cleanup_expired now rc))"
proof -
  let ?app = "serve ext (reqs1 @ req # reqs2) (lifespan s key repo)"
  have ck: "j \<in> seen (cleanup_expired now rc)"
    if "j \<in> seen rc" and "jti_timestamps rc j = None" for rc j now
    using that by (rule cleanup_expired_keeps)
  have nt: "jti_timestamps (replay_cache ?app) = Map.empty"
    by (simp add: serve_no_timestamps)
  have "k \<in> admitted_all ext (reqs1 @ req # reqs2) (lifespan s key repo)"
    using assms by (simp add: admitted_all_append)
  then have sn: "k \<in> seen (replay_cache ?app)"
    by (simp add: serve_seen)
  have cl: "k \<in> seen (cleanup_expired now (replay_cache ?app))" for now
    using sn nt by (simp add: cleanup_expired_no_timestamps)
  have ir: "fst (is_replayed jti now (replay_cache ?app)) = Inr True" if "py_key jti = Inr k" for jti now
    using that sn by (simp add: is_replayed_no_timestamps [OF nt])
  have vt: "fst (validate_token ext req' ?app) = respond req' DENY (Some REPLAY_DETECTED) None"
    if "reaches_replay_check ext req' ?app jti" and "py_key jti = Inr k" for req' jti
    using validate_token_replayed [OF nt that sn] .
  from nt sn cl ir vt ck show ?thesis by blast
qed

theorem replay_entry_never_expires_witness:
  "replay_cache_max_size (settings tiny_cache_app) = 1 \<and>
   admitted demo_ext (demo_req ''high'' 1000) (serve demo_ext [] tiny_cache_app) = Some (JStr ''j1'') \<and>
   seen (replay_cache (serve demo_ext [demo_req ''high'' 1000, demo_req ''empty_sub'' 1500] tiny_cache_app)) =
     {JStr ''j1'', JStr ''j4''} \<and>
   jti_timestamps (replay_cache
     (serve demo_ext [demo_req ''high'' 1000, demo_req ''empty_sub'' 1500] tiny_cache_app)) = Map.empty \<and>
   fst (is_replayed (JStr ''j1'') 1000000 (replay_cache
     (serve demo_ext [demo_req ''high'' 1000, demo_req ''empty_sub'' 1500] tiny_cache_app))) = Inr True \<and>
   fst (validate_token demo_ext (demo_req ''high'' 2010)
     (serve demo_ext [demo_req ''high'' 1000, demo_req ''empty_sub'' 1500] tiny_cache_app)) =
     respond (demo_req ''high'' 2010) DENY (Some REPLAY_DETECTED) None"
proof -
  have k: "py_key (JStr ''j1'') = Inr (JStr ''j1'')" by simp
  have m: "replay_cache_max_size (settings tiny_cache_app) = 1"
    by (simp add: tiny_cache_app_def lifespan_def default_settings_def)
  note t = replay_entry_never_expires [of demo_ext "demo_req ''high'' 1000" "[]"
      "default_settings\<lparr>replay_cache_max_size := 1\<rparr>" "''public key''" MockScoreRepository
      "JStr ''j1''" "[demo_req ''empty_sub'' 1500]", folded tiny_cache_app_def,
      OF tiny_high_admitted, simplified append_Nil]
  from t have a: "jti_timestamps (replay_cache
     (serve demo_ext [demo_req ''high'' 1000, demo_req ''empty_sub'' 1500] tiny_cache_app)) = Map.empty"
    by blast
  from t k have b: "fst (is_replayed (JStr ''j1'') 1000000 (replay_cache
     (serve demo_ext [demo_req ''high'' 1000, demo_req ''empty_sub'' 1500] tiny_cache_app))) = Inr True"
    by blast
  from t k tiny_reaches have c: "fst (validate_token demo_ext (demo_req ''high'' 2010)
     (serve demo_ext [demo_req ''high'' 1000, demo_req ''empty_sub'' 1500] tiny_cache_app)) =
     respond (demo_req ''high'' 2010) DENY (Some REPLAY_DETECTED) None"
    by blast
  from m tiny_high_admitted tiny_seen a b c show ?thesis by blast
qed

section \<open>Counters of refused requests\<close>

text \<open>
  C9. The code does not do what the claim says: \<open>rate_limit_hits\<close> and
  \<open>replay_detections\<close> are created at 0 and reported by \<open>/metrics\<close>, and no request
  changes them. A request refused by the rate limiter and a request detected as a
  replay each add one to \<open>deny_count\<close> only.
\<close>

theorem hit_counters_never_incremented:
  "fst (validate_token demo_ext (demo_req ''high'' 1000)
         (serve demo_ext [demo_req ''high'' 1000] last_token_app)) =
     respond (demo_req ''high'' 1000) DENY (Some RATE_LIMIT_EXCEEDED) None \<and>
   deny_count (metrics (serve demo_ext [demo_req ''high'' 1000] last_token_app)) = 0 \<and>
   deny_count (metrics
     (serve demo_ext [demo_req ''high'' 1000, demo_req ''high'' 1000] last_token_app)) = 1 \<and>
   rate_limit_hits (metrics
     (serve demo_ext [demo_req ''high'' 1000, demo_req ''high'' 1000] last_token_app)) = 0 \<and>
   fst (validate_token demo_ext (demo_req ''high'' 1001)
         (serve demo_ext [demo_req ''high'' 1000] demo_app)) =
     respond (demo_req ''high'' 1001) DENY (Some REPLAY_DETECTED) None \<and>
   deny_count (metrics (serve demo_ext [demo_req ''high'' 1000] demo_app)) = 0 \<and>
   deny_count (metrics
     (serve demo_ext [demo_req ''high'' 1000, demo_req ''high'' 1001] demo_app)) = 1 \<and>
   replay_detections (metrics
     (serve demo_ext [demo_req ''high'' 1000, demo_req ''high'' 1001] demo_app)) = 0"
  by (simp add: demo_eval last_token_app_def)

text \<open>The two counters keep their value over any run.\<close>

lemma serve_hit_counters:
  "rate_limit_hits (metrics (serve ext reqs app)) = rate_limit_hits (metrics app) \<and>
   replay_detections (metrics (serve ext reqs app)) = replay_detections (metrics app)"
  by (induction reqs arbitrary: app) (simp_all add: validate_token_frame)

end
